theory Spec2Isabelle
  imports Main "HOL-Library.Sublist"
begin

section \<open>JavaScript values used by the git wrapper\<close>

text \<open>
  The functions of \<^verbatim>\<open>packages/core/src/utils/git.ts\<close> take parameters that TypeScript
  types as \<^verbatim>\<open>string\<close>. The types are erased at run time and the REST handlers of
  \<^verbatim>\<open>apps/server/src/api/rest.ts\<close> pass the fields of the request body unchecked, so a
  parameter may be \<^verbatim>\<open>undefined\<close>. A parameter is therefore a \<open>string option\<close>:
  \<open>Some s\<close> is the string \<open>s\<close>, \<open>None\<close> is \<^verbatim>\<open>undefined\<close>. Strings are lists of
  characters; \<open>length\<close> stands for the JavaScript \<^verbatim>\<open>.length\<close>.
\<close>

type_synonym jsstr = "string option"

text \<open>A template literal \<^verbatim>\<open>${x}\<close> renders \<^verbatim>\<open>undefined\<close> as the text "undefined".\<close>

fun template :: "jsstr \<Rightarrow> string" where
  "template None = ''undefined''"
| "template (Some s) = s"

text \<open>\<^verbatim>\<open>Array.prototype.join\<close> renders an \<^verbatim>\<open>undefined\<close> element as the empty string.\<close>

fun join_elem :: "jsstr \<Rightarrow> string" where
  "join_elem None = []"
| "join_elem (Some s) = s"

fun join :: "string \<Rightarrow> jsstr list \<Rightarrow> string" where
  "join sep [] = []"
| "join sep [x] = join_elem x"
| "join sep (x # y # ys) = join_elem x @ sep @ join sep (y # ys)"

text \<open>\<^verbatim>\<open>String.prototype.includes\<close>: the pattern occurs somewhere in the string.\<close>

fun str_includes :: "string \<Rightarrow> string \<Rightarrow> bool" where
  "str_includes [] pat = (pat = [])"
| "str_includes (c # cs) pat = (prefix pat (c # cs) \<or> str_includes cs pat)"

text \<open>
  An \<^verbatim>\<open>Error\<close> object: its \<^verbatim>\<open>name\<close>, its \<^verbatim>\<open>message\<close> and the \<^verbatim>\<open>code\<close> that Node puts on
  system errors (\<^verbatim>\<open>NodeJS.ErrnoException\<close>), absent on a plain \<^verbatim>\<open>new Error(msg)\<close>. The
  errors that Node's own argument validation throws (\<^verbatim>\<open>ERR_INVALID_ARG_TYPE\<close>,
  \<^verbatim>\<open>ERR_INVALID_ARG_VALUE\<close>, ...) carry a \<^verbatim>\<open>toString\<close> of their own, which prints the key
  under which Node made the error: \<open>node_error_key\<close> is that key, and \<open>None\<close> on every
  other error.
\<close>

record js_error =
  name :: string
  message :: string
  code :: "string option"
  node_error_key :: "string option"

definition new_Error :: "string \<Rightarrow> js_error" where
  "new_Error msg = \<lparr>name = ''Error'', message = msg, code = None, node_error_key = None\<rparr>"

text \<open>
  What a template literal \<^verbatim>\<open>${error}\<close> prints. An error made by Node's validation
  prints \<^verbatim>\<open>name [key]: message\<close>. Any other error has \<^verbatim>\<open>Error.prototype.toString\<close>: the
  name alone when the message is empty, the message alone when the name is empty,
  else \<^verbatim>\<open>name + ": " + message\<close>.
\<close>

definition error_toString :: "js_error \<Rightarrow> string" where
  "error_toString e =
     (case node_error_key e of
        Some key \<Rightarrow> name e @ '' ['' @ key @ '']: '' @ message e
      | None \<Rightarrow>
          (if name e = [] then message e
           else if message e = [] then name e
           else name e @ '': '' @ message e))"

text \<open>
  The state of a promise (and of an \<^verbatim>\<open>async\<close> call): still pending, resolved with a
  value, or rejected with an error.
\<close>

datatype 'a outcome = Pending | Resolved 'a | Rejected js_error

section \<open>The child process\<close>

text \<open>
  What \<^verbatim>\<open>spawn('git', args, {cwd, env})\<close> does is outside the program. Either the call
  throws (inside the promise executor, which rejects the promise with the thrown
  error), or it returns a child whose events arrive in some order: chunks of stdout
  and of stderr (already decoded by \<^verbatim>\<open>data.toString()\<close>), \<^verbatim>\<open>close\<close> with the exit
  status (\<^verbatim>\<open>null\<close>, here \<open>None\<close>, when a signal ended the process), and \<^verbatim>\<open>error\<close>.
\<close>

datatype event =
    StdoutData string
  | StderrData string
  | Close "int option"
  | ErrorEvent js_error

datatype spawn_result = Throws js_error | Emits "event list"

text \<open>
  Why a spawn can fail once \<^verbatim>\<open>spawn\<close> has returned, and the error the child then emits.
  Node reports a missing executable and a working directory that does not exist with
  the same system error, \<^verbatim>\<open>ENOENT\<close>, in an error of the same shape (its documentation of
  \<^verbatim>\<open>options.cwd\<close> says so); any other system error carries its own name.
\<close>

datatype spawn_failure =
    ExecutableMissing
  | WorkingDirectoryMissing
  | SystemError string

fun spawn_failure_code :: "spawn_failure \<Rightarrow> string" where
  "spawn_failure_code ExecutableMissing = ''ENOENT''"
| "spawn_failure_code WorkingDirectoryMissing = ''ENOENT''"
| "spawn_failure_code (SystemError errno) = errno"

definition spawn_error :: "spawn_failure \<Rightarrow> js_error" where
  "spawn_error f =
     \<lparr>name = ''Error'', message = ''spawn git '' @ spawn_failure_code f,
      code = Some (spawn_failure_code f), node_error_key = None\<rparr>"

text \<open>
  The world: the behaviour of each process that will be spawned, in order of
  spawning (a process with no entry left never emits an event), the log of the calls
  to \<^verbatim>\<open>spawn\<close> made so far, the value of \<^verbatim>\<open>process.env.PATH\<close>, and what
  \<^verbatim>\<open>process.cwd()\<close> does: it returns the working directory, or throws when that
  directory no longer exists.
\<close>

record git_world =
  script :: "spawn_result list"
  spawned :: "(jsstr list \<times> jsstr) list"
  env_PATH :: jsstr
  process_cwd :: "js_error + string"

definition spawn :: "jsstr list \<Rightarrow> jsstr \<Rightarrow> git_world \<Rightarrow> spawn_result \<times> git_world" where
  "spawn args cwd w =
     (case script w of
        [] \<Rightarrow> (Emits [], w\<lparr>spawned := spawned w @ [(args, cwd)]\<rparr>)
      | r # rs \<Rightarrow> (r, w\<lparr>script := rs, spawned := spawned w @ [(args, cwd)]\<rparr>))"

section \<open>executeGitCommand\<close>

text \<open>
  The variables of the promise executor: the two accumulators and the promise. A
  promise settles once: \<^verbatim>\<open>resolve\<close> and \<^verbatim>\<open>reject\<close> on a settled promise do nothing.
\<close>

record exec_state =
  stdout :: string
  stderr :: string
  promise :: "string outcome"

definition exec_init :: exec_state where
  "exec_init = \<lparr>stdout = [], stderr = [], promise = Pending\<rparr>"

definition settle :: "string outcome \<Rightarrow> exec_state \<Rightarrow> exec_state" where
  "settle r st = (if promise st = Pending then st\<lparr>promise := r\<rparr> else st)"

definition command_failed_message :: "jsstr list \<Rightarrow> string" where
  "command_failed_message args = ''Git command failed: git '' @ join '' '' args"

definition not_found_message :: "jsstr list \<Rightarrow> jsstr \<Rightarrow> string" where
  "not_found_message args path_env =
     ''Git executable not found. Please ensure git is installed and available in your PATH.\<newline>''
     @ ''Command attempted: git '' @ join '' '' args @ ''\<newline>''
     @ ''Current PATH: '' @ template path_env"

text \<open>The four event handlers registered on the child.\<close>

fun on_event :: "jsstr list \<Rightarrow> jsstr \<Rightarrow> exec_state \<Rightarrow> event \<Rightarrow> exec_state" where
  "on_event args path_env st (StdoutData d) = st\<lparr>stdout := stdout st @ d\<rparr>"
| "on_event args path_env st (StderrData d) = st\<lparr>stderr := stderr st @ d\<rparr>"
| "on_event args path_env st (Close c) =
     (if c = Some 0 then settle (Resolved (stdout st)) st
      else settle (Rejected (new_Error
             (if stderr st \<noteq> [] then stderr st else command_failed_message args))) st)"
| "on_event args path_env st (ErrorEvent e) =
     (if code e = Some ''ENOENT''
      then settle (Rejected (new_Error (not_found_message args path_env))) st
      else settle (Rejected e) st)"

definition run_events :: "jsstr list \<Rightarrow> jsstr \<Rightarrow> event list \<Rightarrow> exec_state" where
  "run_events args path_env evs = foldl (on_event args path_env) exec_init evs"

fun promise_of :: "jsstr list \<Rightarrow> jsstr \<Rightarrow> spawn_result \<Rightarrow> string outcome" where
  "promise_of args path_env (Throws e) = Rejected e"
| "promise_of args path_env (Emits evs) = promise (run_events args path_env evs)"

definition executeGitCommand ::
  "jsstr list \<Rightarrow> jsstr \<Rightarrow> git_world \<Rightarrow> string outcome \<times> git_world" where
  "executeGitCommand args cwd w =
     (case spawn args cwd w of (r, w') \<Rightarrow> (promise_of args (env_PATH w) r, w'))"

section \<open>Paths\<close>

text \<open>
  \<^verbatim>\<open>path.basename\<close> and \<^verbatim>\<open>path.join\<close> of Node's \<^verbatim>\<open>path\<close> module, POSIX flavour, on
  strings: the base name is what follows the last slash once trailing slashes are
  dropped; \<^verbatim>\<open>join\<close> glues its non-empty arguments with slashes and normalises the
  result, resolving the segments \<^verbatim>\<open>.\<close> and \<^verbatim>\<open>..\<close> and dropping empty ones. Both throw
  a \<^verbatim>\<open>TypeError\<close> on an argument that is not a string.
\<close>

definition slash :: char where
  "slash = CHR ''/''"

definition path_basename :: "string \<Rightarrow> string" where
  "path_basename p =
     rev (takeWhile (\<lambda>c. c \<noteq> slash) (dropWhile (\<lambda>c. c = slash) (rev p)))"

fun split_on :: "'a \<Rightarrow> 'a list \<Rightarrow> 'a list list" where
  "split_on c [] = [[]]"
| "split_on c (x # xs) =
     (if x = c then [] # split_on c xs
      else (case split_on c xs of [] \<Rightarrow> [[x]] | s # ss \<Rightarrow> (x # s) # ss))"

fun intercalate :: "'a list \<Rightarrow> 'a list list \<Rightarrow> 'a list" where
  "intercalate sep [] = []"
| "intercalate sep [x] = x"
| "intercalate sep (x # y # ys) = x @ sep @ intercalate sep (y # ys)"

text \<open>
  The segments kept so far and the segments still to read. A \<^verbatim>\<open>..\<close> removes the last
  kept segment unless there is none or it is \<^verbatim>\<open>..\<close> itself; then it is kept on a
  relative path and dropped on an absolute one.
\<close>

fun normalize_segments :: "bool \<Rightarrow> string list \<Rightarrow> string list \<Rightarrow> string list" where
  "normalize_segments allowAboveRoot res [] = res"
| "normalize_segments allowAboveRoot res (s # ss) =
     (if s = [] \<or> s = ''.'' then normalize_segments allowAboveRoot res ss
      else if s = ''..'' then
        (if res \<noteq> [] \<and> last res \<noteq> ''..''
         then normalize_segments allowAboveRoot (butlast res) ss
         else if allowAboveRoot then normalize_segments allowAboveRoot (res @ [''..'']) ss
         else normalize_segments allowAboveRoot res ss)
      else normalize_segments allowAboveRoot (res @ [s]) ss)"

definition path_normalize :: "string \<Rightarrow> string" where
  "path_normalize p =
     (if p = [] then ''.''
      else
        let isAbsolute = (hd p = slash);
            trailingSeparator = (last p = slash);
            res = intercalate ''/'' (normalize_segments (\<not> isAbsolute) [] (split_on slash p))
        in if res = [] then (if isAbsolute then ''/'' else if trailingSeparator then ''./'' else ''.'')
           else (if isAbsolute then ''/'' else []) @ res @ (if trailingSeparator then ''/'' else []))"

definition path_join :: "string list \<Rightarrow> string" where
  "path_join args =
     (let parts = filter (\<lambda>a. a \<noteq> []) args
      in if parts = [] then ''.'' else path_normalize (intercalate ''/'' parts))"

definition path_type_error :: js_error where
  \<open>path_type_error =
     \<lparr>name = ''TypeError'',
      message = ''The "path" argument must be of type string. Received undefined'',
      code = Some ''ERR_INVALID_ARG_TYPE'',
      node_error_key = Some ''ERR_INVALID_ARG_TYPE''\<rparr>\<close>

section \<open>The git operations\<close>

record WorktreeAddResult =
  path :: string
  branch :: jsstr

record WorktreeRemoveResult =
  success :: bool
  warning :: "string option"

text \<open>
  \<^verbatim>\<open>parseWorktrees\<close> and \<^verbatim>\<open>parseGitStatus\<close> are imported from \<^verbatim>\<open>./git-parser\<close>; the
  operations that call them take the parser as a parameter, a function that returns
  its value or throws.
\<close>

definition listWorktrees ::
  "(string \<Rightarrow> js_error + 'w) \<Rightarrow> jsstr \<Rightarrow> git_world \<Rightarrow> 'w outcome \<times> git_world" where
  "listWorktrees parseWorktrees projectPath w =
     (case executeGitCommand [Some ''worktree'', Some ''list'', Some ''--porcelain''] projectPath w of
        (Pending, w') \<Rightarrow> (Pending, w')
      | (Rejected e, w') \<Rightarrow> (Rejected e, w')
      | (Resolved output, w') \<Rightarrow>
          (case parseWorktrees output of Inl e \<Rightarrow> (Rejected e, w') | Inr v \<Rightarrow> (Resolved v, w')))"

definition getGitStatus ::
  "(string \<Rightarrow> js_error + 's) \<Rightarrow> jsstr \<Rightarrow> git_world \<Rightarrow> 's outcome \<times> git_world" where
  "getGitStatus parseGitStatus worktreePath w =
     (case executeGitCommand [Some ''status'', Some ''--porcelain=v1''] worktreePath w of
        (Pending, w') \<Rightarrow> (Pending, w')
      | (Rejected e, w') \<Rightarrow> (Rejected e, w')
      | (Resolved output, w') \<Rightarrow>
          (case parseGitStatus output of Inl e \<Rightarrow> (Rejected e, w') | Inr v \<Rightarrow> (Resolved v, w')))"

text \<open>\<^verbatim>\<open>if (filePath)\<close>: \<^verbatim>\<open>undefined\<close> and the empty string are falsy.\<close>

fun truthy :: "jsstr \<Rightarrow> bool" where
  "truthy None = False"
| "truthy (Some s) = (s \<noteq> [])"

definition getGitDiff :: "jsstr \<Rightarrow> jsstr \<Rightarrow> git_world \<Rightarrow> string outcome \<times> git_world" where
  "getGitDiff worktreePath filePath w =
     executeGitCommand ([Some ''diff''] @ (if truthy filePath then [filePath] else [])) worktreePath w"

definition getGitDiffStaged :: "jsstr \<Rightarrow> jsstr \<Rightarrow> git_world \<Rightarrow> string outcome \<times> git_world" where
  "getGitDiffStaged worktreePath filePath w =
     executeGitCommand
       ([Some ''diff'', Some ''--staged''] @ (if truthy filePath then [filePath] else []))
       worktreePath w"

text \<open>
  \<^verbatim>\<open>addWorktree\<close>: the arguments of \<^verbatim>\<open>path.join\<close> are evaluated first, so on an
  \<^verbatim>\<open>undefined\<close> project path \<^verbatim>\<open>path.basename\<close> throws before git is called.
\<close>

definition addWorktree ::
  "jsstr \<Rightarrow> jsstr \<Rightarrow> git_world \<Rightarrow> WorktreeAddResult outcome \<times> git_world" where
  "addWorktree projectPath branchName w =
     (case projectPath of
        None \<Rightarrow> (Rejected path_type_error, w)
      | Some p \<Rightarrow>
          let worktreePath = path_join [p, ''..'', path_basename p @ ''-'' @ template branchName]
          in (case executeGitCommand
                     [Some ''worktree'', Some ''add'', Some ''-b'', branchName, Some worktreePath]
                     projectPath w of
                (Pending, w') \<Rightarrow> (Pending, w')
              | (Rejected e, w') \<Rightarrow> (Rejected e, w')
              | (Resolved output, w') \<Rightarrow>
                  (Resolved \<lparr>path = worktreePath, branch = branchName\<rparr>, w')))"

text \<open>
  \<^verbatim>\<open>removeWorktree\<close>: the inner \<^verbatim>\<open>try\<close> turns a failed branch deletion into a
  warning (and writes it to the console, which is not modelled); the outer \<^verbatim>\<open>catch\<close>
  wraps the error of the worktree removal.
\<close>

definition branch_warning :: "js_error \<Rightarrow> string" where
  "branch_warning branchError =
     ''Worktree removed but failed to delete branch: '' @ error_toString branchError"

definition remove_failed_message :: "js_error \<Rightarrow> string" where
  "remove_failed_message e = ''Failed to remove worktree: '' @ error_toString e"

definition removeWorktree ::
  "jsstr \<Rightarrow> jsstr \<Rightarrow> jsstr \<Rightarrow> git_world \<Rightarrow> WorktreeRemoveResult outcome \<times> git_world" where
  "removeWorktree projectPath worktreePath branchName w =
     (case executeGitCommand
             [Some ''worktree'', Some ''remove'', worktreePath, Some ''--force''] projectPath w of
        (Pending, w1) \<Rightarrow> (Pending, w1)
      | (Rejected e, w1) \<Rightarrow>
          (Rejected (new_Error (remove_failed_message e)), w1)
      | (Resolved output, w1) \<Rightarrow>
          (case executeGitCommand [Some ''branch'', Some ''-D'', branchName] projectPath w1 of
             (Pending, w2) \<Rightarrow> (Pending, w2)
           | (Resolved output2, w2) \<Rightarrow> (Resolved \<lparr>success = True, warning = None\<rparr>, w2)
           | (Rejected branchError, w2) \<Rightarrow>
               (Resolved \<lparr>success = True, warning = Some (branch_warning branchError)\<rparr>, w2)))"

definition isGitRepository :: "jsstr \<Rightarrow> git_world \<Rightarrow> bool outcome \<times> git_world" where
  "isGitRepository p w =
     (case executeGitCommand [Some ''rev-parse'', Some ''--git-dir''] p w of
        (Pending, w') \<Rightarrow> (Pending, w')
      | (Resolved output, w') \<Rightarrow> (Resolved True, w')
      | (Rejected e, w') \<Rightarrow> (Resolved False, w'))"

text \<open>
  \<^verbatim>\<open>isGitAvailable\<close>: \<^verbatim>\<open>process.cwd()\<close> is evaluated inside the \<^verbatim>\<open>try\<close>, so an error it
  throws reaches the same \<^verbatim>\<open>catch\<close> as a rejected probe, and git is then not spawned.
\<close>

definition isGitAvailable :: "git_world \<Rightarrow> bool outcome \<times> git_world" where
  "isGitAvailable w =
     (case process_cwd w of
        Inl error \<Rightarrow>
          (if str_includes (message error) ''Git executable not found''
           then (Resolved False, w) else (Resolved True, w))
      | Inr cwd \<Rightarrow>
          (case executeGitCommand [Some ''--version''] (Some cwd) w of
             (Pending, w') \<Rightarrow> (Pending, w')
           | (Resolved output, w') \<Rightarrow> (Resolved True, w')
           | (Rejected error, w') \<Rightarrow>
               (if str_includes (message error) ''Git executable not found''
                then (Resolved False, w') else (Resolved True, w'))))"

section \<open>Reading a run of the child process\<close>

text \<open>
  Vocabulary for the statements about \<open>executeGitCommand\<close>: the events that only
  feed the accumulators, and the text a list of events writes to each stream.
\<close>

fun is_data :: "event \<Rightarrow> bool" where
  "is_data (StdoutData d) = True"
| "is_data (StderrData d) = True"
| "is_data (Close c) = False"
| "is_data (ErrorEvent e) = False"

fun stdout_chunk :: "event \<Rightarrow> string" where
  "stdout_chunk (StdoutData d) = d"
| "stdout_chunk (StderrData d) = []"
| "stdout_chunk (Close c) = []"
| "stdout_chunk (ErrorEvent e) = []"

fun stderr_chunk :: "event \<Rightarrow> string" where
  "stderr_chunk (StdoutData d) = []"
| "stderr_chunk (StderrData d) = d"
| "stderr_chunk (Close c) = []"
| "stderr_chunk (ErrorEvent e) = []"

definition stdout_text :: "event list \<Rightarrow> string" where
  "stdout_text evs = concat (map stdout_chunk evs)"

definition stderr_text :: "event list \<Rightarrow> string" where
  "stderr_text evs = concat (map stderr_chunk evs)"

text \<open>
  The failure that the spec calls "executable not found", as the code can see it: the
  first event that is not data is an \<^verbatim>\<open>error\<close> event whose code is \<^verbatim>\<open>ENOENT\<close>.
\<close>

fun executable_not_found :: "spawn_result \<Rightarrow> bool" where
  "executable_not_found (Throws e) = False"
| "executable_not_found (Emits evs) =
     (case dropWhile is_data evs of
        ErrorEvent e # post \<Rightarrow> code e = Some ''ENOENT''
      | _ \<Rightarrow> False)"

text \<open>A path made of ordinary segments: none empty, none with a slash, none a dot name.\<close>

definition proper_segment :: "string \<Rightarrow> bool" where
  "proper_segment s \<longleftrightarrow> s \<noteq> [] \<and> slash \<notin> set s \<and> s \<noteq> ''.'' \<and> s \<noteq> ''..''"

definition path_of_segments :: "bool \<Rightarrow> string list \<Rightarrow> string" where
  "path_of_segments absolute segs = (if absolute then ''/'' else []) @ intercalate ''/'' segs"

section \<open>The worktree-list parser\<close>

text \<open>
  Modelled from the spec: \<^verbatim>\<open>parseWorktrees\<close> of \<^verbatim>\<open>packages/core/src/utils/git-parser\<close>
  and the type \<^verbatim>\<open>Worktree\<close> of \<^verbatim>\<open>packages/core/src/types\<close>, neither of which is among the
  sources. The spec: the output is a sequence of records separated by blank lines,
  each record a sequence of lines \<^verbatim>\<open>key value\<close> or bare \<^verbatim>\<open>key\<close>; the keys are
  \<^verbatim>\<open>worktree\<close> (the path), \<^verbatim>\<open>HEAD\<close> (the commit), \<^verbatim>\<open>branch\<close> (the ref name without its
  \<^verbatim>\<open>refs/heads/\<close> prefix), and the flags \<^verbatim>\<open>bare\<close> and \<^verbatim>\<open>locked\<close>; a record without a
  \<^verbatim>\<open>branch\<close> line is a detached worktree (its branch is left empty here); the first
  record is the main worktree. A \<^verbatim>\<open>Worktree\<close> is
  \<^verbatim>\<open>{path, branch, isMain, isLocked, head}\<close>; its first two fields carry a prefix here,
  the names being taken by \<open>WorktreeAddResult\<close>.
\<close>

record Worktree =
  wt_path :: string
  wt_branch :: string
  isMain :: bool
  isLocked :: bool
  head :: string

definition newline :: char where
  "newline = CHR 0x0A"

definition line_key :: "string \<Rightarrow> string" where
  "line_key l = takeWhile (\<lambda>c. c \<noteq> CHR '' '') l"

definition line_value :: "string \<Rightarrow> string" where
  "line_value l = drop (Suc (length (line_key l))) l"

definition strip_heads :: "string \<Rightarrow> string" where
  "strip_heads r = (if prefix ''refs/heads/'' r then drop (length ''refs/heads/'') r else r)"

definition parse_record_line :: "Worktree \<Rightarrow> string \<Rightarrow> Worktree" where
  "parse_record_line wt l =
     (if line_key l = ''worktree'' then wt\<lparr>wt_path := line_value l\<rparr>
      else if line_key l = ''HEAD'' then wt\<lparr>head := line_value l\<rparr>
      else if line_key l = ''branch'' then wt\<lparr>wt_branch := strip_heads (line_value l)\<rparr>
      else if line_key l = ''locked'' then wt\<lparr>isLocked := True\<rparr>
      else wt)"

definition parse_record :: "bool \<Rightarrow> string list \<Rightarrow> Worktree" where
  "parse_record main ls =
     foldl parse_record_line
       \<lparr>wt_path = [], wt_branch = [], isMain = main, isLocked = False, head = []\<rparr> ls"

definition split_records :: "string list \<Rightarrow> string list list" where
  "split_records ls = filter (\<lambda>r. r \<noteq> []) (split_on [] ls)"

text \<open>
  Modelled from the spec: \<^verbatim>\<open>parseWorktrees\<close> itself, which is not among the sources. The
  output is cut into lines, the lines into records at the blank lines, and the first
  record is marked as the main worktree.
\<close>

definition parseWorktrees :: "string \<Rightarrow> Worktree list" where
  "parseWorktrees output =
     (case split_records (split_on newline output) of
        [] \<Rightarrow> []
      | r # rs \<Rightarrow> parse_record True r # map (parse_record False) rs)"

text \<open>
  A text of records separated by blank lines: the lines of a record are joined by
  newlines and the records by two newlines, and the text ends with any number of
  newlines (two in what git prints, where an empty line ends every record; none once
  the text is trimmed). A record is valid when it has at least one line and its lines
  are neither empty nor broken by a newline.
\<close>

definition separated_text :: "string list list \<Rightarrow> string" where
  "separated_text recs = intercalate [newline, newline] (map (intercalate [newline]) recs)"

definition porcelain_text :: "string list list \<Rightarrow> nat \<Rightarrow> string" where
  "porcelain_text recs k = separated_text recs @ replicate k newline"

definition valid_record :: "string list \<Rightarrow> bool" where
  "valid_record r \<longleftrightarrow> r \<noteq> [] \<and> list_all (\<lambda>l. l \<noteq> [] \<and> newline \<notin> set l) r"

section \<open>The REST handlers\<close>

text \<open>
  A handler's response: the status (200 unless \<^verbatim>\<open>res.status\<close> sets it) and the JSON body.
  The types of the three results that come from outside the sources (the parsed
  worktrees, the parsed status, the directory listing) are parameters.
\<close>

datatype ('w, 's, 'd) json_body =
    JError string
  | JErrorDetails string string
  | JWorktrees 'w
  | JStatus 's
  | JDiff string
  | JAdd WorktreeAddResult
  | JRemove WorktreeRemoveResult
  | JDirectories string 'd

record ('w, 's, 'd) response =
  status :: nat
  body :: "('w, 's, 'd) json_body"

fun has_error_field :: "('w, 's, 'd) json_body \<Rightarrow> bool" where
  "has_error_field (JError m) = True"
| "has_error_field (JErrorDetails m d) = True"
| "has_error_field (JWorktrees v) = False"
| "has_error_field (JStatus v) = False"
| "has_error_field (JDiff v) = False"
| "has_error_field (JAdd v) = False"
| "has_error_field (JRemove v) = False"
| "has_error_field (JDirectories p v) = False"

text \<open>
  The body of a git request: each field is a string or absent (\<^verbatim>\<open>req.body.x\<close> is then
  \<^verbatim>\<open>undefined\<close>).
\<close>

record git_request_body =
  projectPath :: jsstr
  worktreePath :: jsstr
  branchName :: jsstr
  filePath :: jsstr

text \<open>
  The shape the five git handlers share: \<^verbatim>\<open>try { res.json(await op(...)) }
  catch (error) { res.status(500).json({error: error.message}) }\<close>. No response is sent
  while the operation is pending.
\<close>

definition reply_of ::
  "('a \<Rightarrow> ('w, 's, 'd) json_body) \<Rightarrow> 'a outcome \<Rightarrow> ('w, 's, 'd) response option" where
  "reply_of to_json r =
     (case r of
        Pending \<Rightarrow> None
      | Resolved v \<Rightarrow> Some \<lparr>status = 200, body = to_json v\<rparr>
      | Rejected e \<Rightarrow> Some \<lparr>status = 500, body = JError (message e)\<rparr>)"

definition respond ::
  "('a \<Rightarrow> ('w, 's, 'd) json_body) \<Rightarrow> 'a outcome \<times> git_world
     \<Rightarrow> ('w, 's, 'd) response option \<times> git_world" where
  "respond to_json r = (case r of (v, w') \<Rightarrow> (reply_of to_json v, w'))"

definition post_git_worktrees ::
  "(string \<Rightarrow> js_error + 'w) \<Rightarrow> git_request_body \<Rightarrow> git_world
     \<Rightarrow> ('w, 's, 'd) response option \<times> git_world" where
  "post_git_worktrees parser req w =
     respond JWorktrees (listWorktrees parser (projectPath req) w)"

definition post_git_status ::
  "(string \<Rightarrow> js_error + 's) \<Rightarrow> git_request_body \<Rightarrow> git_world
     \<Rightarrow> ('w, 's, 'd) response option \<times> git_world" where
  "post_git_status parser req w =
     respond JStatus (getGitStatus parser (worktreePath req) w)"

definition post_git_diff ::
  "git_request_body \<Rightarrow> git_world \<Rightarrow> ('w, 's, 'd) response option \<times> git_world" where
  "post_git_diff req w = respond JDiff (getGitDiff (worktreePath req) (filePath req) w)"

definition post_git_worktree_add ::
  "git_request_body \<Rightarrow> git_world \<Rightarrow> ('w, 's, 'd) response option \<times> git_world" where
  "post_git_worktree_add req w =
     respond JAdd (addWorktree (projectPath req) (branchName req) w)"

definition delete_git_worktree ::
  "git_request_body \<Rightarrow> git_world \<Rightarrow> ('w, 's, 'd) response option \<times> git_world" where
  "delete_git_worktree req w =
     respond JRemove (removeWorktree (projectPath req) (worktreePath req) (branchName req) w)"

text \<open>
  \<^verbatim>\<open>req.query.path\<close>: absent, a string, or (for a repeated or bracketed parameter) an
  array or object, which is truthy and not a string.
\<close>

datatype query_value = QUndefined | QString string | QOther

text \<open>
  \<^verbatim>\<open>validatePath\<close> and \<^verbatim>\<open>listDirectories\<close> come from the core package and are not among
  the sources: the handler takes them as parameters, asynchronous functions of the
  path. \<^verbatim>\<open>validation.error || 'Path is not accessible'\<close> falls back on an absent or
  empty error.
\<close>

record validation =
  valid :: bool
  error :: "string option"

definition get_directories ::
  "(string \<Rightarrow> validation outcome) \<Rightarrow> (string \<Rightarrow> 'd outcome) \<Rightarrow> query_value
     \<Rightarrow> ('w, 's, 'd) response option" where
  "get_directories validatePath listDirectories q =
     (case q of
        QUndefined \<Rightarrow> Some \<lparr>status = 400, body = JError ''Invalid path parameter''\<rparr>
      | QOther \<Rightarrow> Some \<lparr>status = 400, body = JError ''Invalid path parameter''\<rparr>
      | QString p \<Rightarrow>
          if p = [] \<or> length p > 1000
          then Some \<lparr>status = 400, body = JError ''Invalid path parameter''\<rparr>
          else
            (case validatePath p of
               Pending \<Rightarrow> None
             | Rejected e \<Rightarrow> Some \<lparr>status = 500, body = JError ''Directory operation failed''\<rparr>
             | Resolved v \<Rightarrow>
                 if \<not> valid v
                 then Some \<lparr>status = 400,
                            body = JErrorDetails ''Invalid path''
                                     (if truthy (error v) then the (error v)
                                      else ''Path is not accessible'')\<rparr>
                 else
                   (case listDirectories p of
                      Pending \<Rightarrow> None
                    | Rejected e \<Rightarrow>
                        Some \<lparr>status = 500, body = JError ''Directory operation failed''\<rparr>
                    | Resolved directories \<Rightarrow>
                        Some \<lparr>status = 200, body = JDirectories p directories\<rparr>)))"

section \<open>Properties of the command executor\<close>

lemma str_includes_iff: "str_includes s pat \<longleftrightarrow> (\<exists>a b. s = a @ pat @ b)"
proof (induction s)
  case Nil
  then show ?case by auto
next
  case (Cons c cs)
  show ?case
  proof
    assume "str_includes (c # cs) pat"
    then consider "prefix pat (c # cs)" | "str_includes cs pat" by auto
    then show "\<exists>a b. c # cs = a @ pat @ b"
    proof cases
      case 1
      then obtain b where "c # cs = pat @ b" by (auto simp: prefix_def)
      then have "c # cs = [] @ pat @ b" by simp
      then show ?thesis by blast
    next
      case 2
      with Cons.IH obtain a b where "cs = a @ pat @ b" by blast
      then have "c # cs = (c # a) @ pat @ b" by simp
      then show ?thesis by blast
    qed
  next
    assume "\<exists>a b. c # cs = a @ pat @ b"
    then obtain a b where ab: "c # cs = a @ pat @ b" by blast
    show "str_includes (c # cs) pat"
    proof (cases a)
      case Nil
      with ab have "prefix pat (c # cs)" by (simp add: prefix_def)
      then show ?thesis by simp
    next
      case (Cons x a')
      with ab have "cs = a' @ pat @ b" by simp
      with Cons.IH have "str_includes cs pat" by blast
      then show ?thesis by simp
    qed
  qed
qed

lemma str_includes_mid: "str_includes (a @ pat @ b) pat"
  unfolding str_includes_iff by blast

lemma foldl_on_event_data:
  "list_all is_data pre \<Longrightarrow>
   foldl (on_event args pe) st pre =
     st\<lparr>stdout := stdout st @ stdout_text pre, stderr := stderr st @ stderr_text pre\<rparr>"
proof (induction pre arbitrary: st)
  case Nil
  then show ?case by (simp add: stdout_text_def stderr_text_def)
next
  case (Cons e pre)
  then show ?case
    by (cases e) (simp_all add: stdout_text_def stderr_text_def)
qed

lemma on_event_settled:
  "promise st \<noteq> Pending \<Longrightarrow> promise (on_event args pe st e) = promise st"
  by (cases e) (simp_all add: settle_def)

lemma foldl_on_event_settled:
  "promise st \<noteq> Pending \<Longrightarrow> promise (foldl (on_event args pe) st evs) = promise st"
  by (induction evs arbitrary: st) (simp_all add: on_event_settled)

lemma run_events_data_then:
  assumes "list_all is_data pre" and that: "\<not> is_data e"
  shows "promise (run_events args pe (pre @ e # post)) =
         promise (on_event args pe
                    \<lparr>stdout = stdout_text pre, stderr = stderr_text pre, promise = Pending\<rparr> e)"
proof -
  let ?st = "\<lparr>stdout = stdout_text pre, stderr = stderr_text pre, promise = Pending\<rparr>"
  have "foldl (on_event args pe) exec_init pre = ?st"
    using foldl_on_event_data[OF assms(1), of args pe exec_init] by (simp add: exec_init_def)
  moreover have "promise (on_event args pe ?st e) \<noteq> Pending"
    using that by (cases e) (simp_all add: settle_def)
  ultimately show ?thesis
    by (simp add: run_events_def foldl_on_event_settled)
qed

lemma run_events_data_only:
  "list_all is_data evs \<Longrightarrow> promise (run_events args pe evs) = Pending"
  by (simp add: run_events_def foldl_on_event_data exec_init_def)

lemma executeGitCommand_script:
  "script w = r # rest \<Longrightarrow>
   executeGitCommand args cwd w =
     (promise_of args (env_PATH w) r, w\<lparr>script := rest, spawned := spawned w @ [(args, cwd)]\<rparr>)"
  by (simp add: executeGitCommand_def spawn_def)


lemma executeGitCommand_no_script:
  "script w = [] \<Longrightarrow>
   executeGitCommand args cwd w = (Pending, w\<lparr>spawned := spawned w @ [(args, cwd)]\<rparr>)"
  by (simp add: executeGitCommand_def spawn_def run_events_def exec_init_def)

lemma spawned_executeGitCommand:
  "spawned (snd (executeGitCommand args cwd w)) = spawned w @ [(args, cwd)]"
  by (simp add: executeGitCommand_def spawn_def split: list.splits)

text \<open>The definitions that evaluate a run of \<open>executeGitCommand\<close> on a concrete world.\<close>

lemmas exec_eval = executeGitCommand_def spawn_def run_events_def exec_init_def settle_def

text \<open>
  Claim C2. When the spawned process closes (no \<^verbatim>\<open>error\<close> event having come first),
  \<open>executeGitCommand\<close> resolves with the accumulated stdout text if the exit status
  is 0, and this is the only case in which it resolves; on any other status it rejects
  with an \<^verbatim>\<open>Error\<close> whose message is the accumulated stderr text or, when that is
  empty, \<^verbatim>\<open>Git command failed: git\<close> followed by the arguments joined by spaces.
\<close>

theorem executeGitCommand_exit_status:
  assumes "script w = Emits (pre @ Close c # post) # rest" and "list_all is_data pre"
  shows "fst (executeGitCommand args cwd w) =
           (if c = Some 0 then Resolved (stdout_text pre)
            else Rejected (new_Error
                   (if stderr_text pre \<noteq> [] then stderr_text pre
                    else ''Git command failed: git '' @ join '' '' args)))
         \<and> ((\<exists>s. fst (executeGitCommand args cwd w) = Resolved s) \<longleftrightarrow> c = Some 0)"
  using assms
  by (simp add: executeGitCommand_script run_events_data_then settle_def command_failed_message_def)

theorem executeGitCommand_exit_status_witness:
  "fst (executeGitCommand [Some ''status'', Some ''--porcelain=v1''] (Some ''/repo'')
          \<lparr>script = [Emits [StdoutData '' M a'', StderrData ''hint'', StdoutData ''.txt'', Close (Some 0)]],
           spawned = [], env_PATH = Some ''/usr/bin'', process_cwd = Inr ''/''\<rparr>)
     = Resolved '' M a.txt''
   \<and> fst (executeGitCommand [Some ''status'', Some ''--porcelain=v1''] (Some ''/repo'')
          \<lparr>script = [Emits [StdoutData ''x'', Close (Some 128)]],
           spawned = [], env_PATH = Some ''/usr/bin'', process_cwd = Inr ''/''\<rparr>)
     = Rejected (new_Error ''Git command failed: git status --porcelain=v1'')"
  using executeGitCommand_exit_status
          [of "\<lparr>script = [Emits [StdoutData '' M a'', StderrData ''hint'', StdoutData ''.txt'', Close (Some 0)]],
               spawned = [], env_PATH = Some ''/usr/bin'', process_cwd = Inr ''/''\<rparr>"
              "[StdoutData '' M a'', StderrData ''hint'', StdoutData ''.txt'']" "Some 0" "[]" "[]"
              "[Some ''status'', Some ''--porcelain=v1'']" "Some ''/repo''"]
        executeGitCommand_exit_status
          [of "\<lparr>script = [Emits [StdoutData ''x'', Close (Some 128)]],
               spawned = [], env_PATH = Some ''/usr/bin'', process_cwd = Inr ''/''\<rparr>"
              "[StdoutData ''x'']" "Some 128" "[]" "[]"
              "[Some ''status'', Some ''--porcelain=v1'']" "Some ''/repo''"]
  by (simp add: stdout_text_def stderr_text_def)

lemma executeGitCommand_resolved_only_on_exit_0:
  assumes "fst (executeGitCommand args cwd w) = Resolved s"
  shows "\<exists>pre post rest. script w = Emits (pre @ Close (Some 0) # post) # rest
           \<and> list_all is_data pre \<and> s = stdout_text pre"
proof (cases "script w")
  case Nil
  with assms show ?thesis by (simp add: executeGitCommand_no_script)
next
  case (Cons r rest)
  show ?thesis
  proof (cases r)
    case (Throws e)
    with Cons assms show ?thesis by (simp add: executeGitCommand_script)
  next
    case (Emits evs)
    let ?pre = "takeWhile is_data evs"
    have pre: "list_all is_data ?pre" by (simp add: list_all_iff) (meson set_takeWhileD)
    show ?thesis
    proof (cases "dropWhile is_data evs")
      case Nil
      then have "list_all is_data evs" by (simp add: list_all_iff)
      with Cons Emits assms show ?thesis
        by (simp add: executeGitCommand_script run_events_data_only)
    next
      case (Cons e post)
      then have nd: "\<not> is_data e" using hd_dropWhile[of is_data evs] by auto
      have evs: "evs = ?pre @ e # post" using Cons takeWhile_dropWhile_id[of is_data evs] by simp
      have res: "fst (executeGitCommand args cwd w) =
                 promise (on_event args (env_PATH w)
                   \<lparr>stdout = stdout_text ?pre, stderr = stderr_text ?pre, promise = Pending\<rparr> e)"
        using \<open>script w = r # rest\<close> Emits run_events_data_then[OF pre nd, of args "env_PATH w" post] evs
        by (simp add: executeGitCommand_script)
      show ?thesis
      proof (cases e)
        case (Close c)
        with res assms have "c = Some 0" and "s = stdout_text ?pre"
          by (auto simp: settle_def split: if_splits)
        with \<open>script w = r # rest\<close> Emits evs Close pre show ?thesis by metis
      next
        case (ErrorEvent err)
        with res assms show ?thesis by (auto simp: settle_def split: if_splits)
      qed (use nd in simp_all)
    qed
  qed
qed




section \<open>Properties of the git operations\<close>

lemma str_includes_append_left: "str_includes s pat \<Longrightarrow> str_includes (a @ s) pat"
proof -
  assume "str_includes s pat"
  then obtain x y where "s = x @ pat @ y" unfolding str_includes_iff by blast
  then have "a @ s = (a @ x) @ pat @ y" by simp
  then show ?thesis unfolding str_includes_iff by blast
qed

lemma str_includes_error_toString: "str_includes (error_toString e) (message e)"
proof (cases "node_error_key e")
  case None
  then have "error_toString e = message e \<or> (message e = [] \<and> error_toString e = name e)
        \<or> error_toString e = (name e @ '': '') @ message e @ []"
    by (simp add: error_toString_def)
  then show ?thesis
    unfolding str_includes_iff
    by (metis append_Nil append_Nil2)
next
  case (Some key)
  then have "error_toString e = (name e @ '' ['' @ key @ '']: '') @ message e @ []"
    by (simp add: error_toString_def)
  then show ?thesis
    unfolding str_includes_iff by blast
qed

lemma str_includes_wrapped: "str_includes (pre @ error_toString e) (message e)"
  by (rule str_includes_append_left) (rule str_includes_error_toString)

text \<open>
  Claim C1. If \<^verbatim>\<open>git worktree remove <worktreePath> --force\<close> succeeds and the following
  \<^verbatim>\<open>git branch -D <branchName>\<close> fails, \<open>removeWorktree\<close> resolves with \<^verbatim>\<open>success\<close> true
  and a warning that is not empty and contains the message of the branch-deletion
  error. If the worktree removal itself fails, \<open>removeWorktree\<close> rejects with a new
  \<^verbatim>\<open>Error\<close> whose message wraps, and so contains, the message of the underlying error.
\<close>

theorem removeWorktree_failures:
  "(executeGitCommand [Some ''worktree'', Some ''remove'', wp, Some ''--force''] pp w
      = (Resolved out, w1)
    \<and> executeGitCommand [Some ''branch'', Some ''-D'', bn] pp w1 = (Rejected branchError, w2)
    \<longrightarrow> removeWorktree pp wp bn w
          = (Resolved \<lparr>success = True, warning = Some (branch_warning branchError)\<rparr>, w2)
        \<and> branch_warning branchError \<noteq> []
        \<and> str_includes (branch_warning branchError) (message branchError))
   \<and> (executeGitCommand [Some ''worktree'', Some ''remove'', wp, Some ''--force''] pp w
        = (Rejected e, w1)
      \<longrightarrow> removeWorktree pp wp bn w = (Rejected (new_Error (remove_failed_message e)), w1)
          \<and> str_includes (remove_failed_message e) (message e))"
proof -
  have "branch_warning branchError \<noteq> []"
    by (simp add: branch_warning_def)
  moreover have "str_includes (branch_warning branchError) (message branchError)"
    unfolding branch_warning_def by (rule str_includes_wrapped)
  moreover have "str_includes (remove_failed_message e) (message e)"
    unfolding remove_failed_message_def by (rule str_includes_wrapped)
  ultimately show ?thesis
    by (simp add: removeWorktree_def)
qed

theorem removeWorktree_failures_witness:
  "fst (removeWorktree (Some ''/a/proj'') (Some ''/a/proj-feat'') (Some ''feat'')
          \<lparr>script = [Emits [Close (Some 0)],
                     Emits [StderrData ''error: branch not found'', Close (Some 1)]],
           spawned = [], env_PATH = Some ''/usr/bin'', process_cwd = Inr ''/''\<rparr>)
     = Resolved \<lparr>success = True,
                 warning = Some ''Worktree removed but failed to delete branch: Error: error: branch not found''\<rparr>
   \<and> fst (removeWorktree (Some ''/a/proj'') (Some ''/a/proj-feat'') (Some ''feat'')
          \<lparr>script = [Emits [StderrData ''fatal: not a working tree'', Close (Some 128)]],
           spawned = [], env_PATH = Some ''/usr/bin'', process_cwd = Inr ''/''\<rparr>)
     = Rejected (new_Error ''Failed to remove worktree: Error: fatal: not a working tree'')
   \<and> fst (removeWorktree (Some ''/a/proj'') (Some ''/a/proj-feat'') (Some (''fe'' @ [CHR 0x00] @ ''at''))
          \<lparr>script = [Emits [Close (Some 0)],
                     Throws \<lparr>name = ''TypeError'',
                             message = ''The argument 'args[2]' must be a string without null bytes. Received 'fe''
                                       @ [CHR 0x5C] @ ''x00at'' @ [CHR 0x27],
                             code = Some ''ERR_INVALID_ARG_VALUE'',
                             node_error_key = Some ''ERR_INVALID_ARG_VALUE''\<rparr>],
           spawned = [], env_PATH = Some ''/usr/bin'', process_cwd = Inr ''/''\<rparr>)
     = Resolved \<lparr>success = True,
                 warning = Some (''Worktree removed but failed to delete branch: TypeError [ERR_INVALID_ARG_VALUE]: ''
                                 @ ''The argument 'args[2]' must be a string without null bytes. Received 'fe''
                                 @ [CHR 0x5C] @ ''x00at'' @ [CHR 0x27])\<rparr>"
proof -
  let ?rm = "[Some ''worktree'', Some ''remove'', Some ''/a/proj-feat'', Some ''--force'']"
  let ?w = "\<lparr>script = [Emits [Close (Some 0)],
                       Emits [StderrData ''error: branch not found'', Close (Some 1)]],
            spawned = [], env_PATH = Some ''/usr/bin'', process_cwd = Inr ''/''\<rparr>"
  let ?w1 = "\<lparr>script = [Emits [StderrData ''error: branch not found'', Close (Some 1)]],
             spawned = [(?rm, Some ''/a/proj'')],
             env_PATH = Some ''/usr/bin'', process_cwd = Inr ''/''\<rparr>"
  let ?w2 = "\<lparr>script = [],
             spawned = [(?rm, Some ''/a/proj''),
                        ([Some ''branch'', Some ''-D'', Some ''feat''], Some ''/a/proj'')],
             env_PATH = Some ''/usr/bin'', process_cwd = Inr ''/''\<rparr>"
  have 1: "fst (removeWorktree (Some ''/a/proj'') (Some ''/a/proj-feat'') (Some ''feat'') ?w)
     = Resolved \<lparr>success = True,
                 warning = Some ''Worktree removed but failed to delete branch: Error: error: branch not found''\<rparr>"
    using removeWorktree_failures
          [where wp = "Some ''/a/proj-feat''" and pp = "Some ''/a/proj''" and bn = "Some ''feat''"
             and w = ?w and out = "[]" and ?w1.0 = ?w1
             and branchError = "new_Error ''error: branch not found''" and ?w2.0 = ?w2,
           THEN conjunct1]
    by (simp add: exec_eval new_Error_def error_toString_def branch_warning_def)
  let ?v = "\<lparr>script = [Emits [StderrData ''fatal: not a working tree'', Close (Some 128)]],
            spawned = [], env_PATH = Some ''/usr/bin'', process_cwd = Inr ''/''\<rparr>"
  let ?v1 = "\<lparr>script = [], spawned = [(?rm, Some ''/a/proj'')],
             env_PATH = Some ''/usr/bin'', process_cwd = Inr ''/''\<rparr>"
  have 2: "fst (removeWorktree (Some ''/a/proj'') (Some ''/a/proj-feat'') (Some ''feat'') ?v)
     = Rejected (new_Error ''Failed to remove worktree: Error: fatal: not a working tree'')"
    using removeWorktree_failures
          [where wp = "Some ''/a/proj-feat''" and pp = "Some ''/a/proj''" and bn = "Some ''feat''"
             and w = ?v and e = "new_Error ''fatal: not a working tree''" and ?w1.0 = ?v1,
           THEN conjunct2]
    by (simp add: exec_eval new_Error_def error_toString_def remove_failed_message_def)
  let ?bn = "Some (''fe'' @ [CHR 0x00] @ ''at'')"
  let ?nul = "\<lparr>name = ''TypeError'',
              message = ''The argument 'args[2]' must be a string without null bytes. Received 'fe''
                        @ [CHR 0x5C] @ ''x00at'' @ [CHR 0x27],
              code = Some ''ERR_INVALID_ARG_VALUE'',
              node_error_key = Some ''ERR_INVALID_ARG_VALUE''\<rparr>"
  let ?u = "\<lparr>script = [Emits [Close (Some 0)], Throws ?nul],
            spawned = [], env_PATH = Some ''/usr/bin'', process_cwd = Inr ''/''\<rparr>"
  let ?u1 = "\<lparr>script = [Throws ?nul], spawned = [(?rm, Some ''/a/proj'')],
             env_PATH = Some ''/usr/bin'', process_cwd = Inr ''/''\<rparr>"
  let ?u2 = "\<lparr>script = [],
             spawned = [(?rm, Some ''/a/proj''), ([Some ''branch'', Some ''-D'', ?bn], Some ''/a/proj'')],
             env_PATH = Some ''/usr/bin'', process_cwd = Inr ''/''\<rparr>"
  have 3: "fst (removeWorktree (Some ''/a/proj'') (Some ''/a/proj-feat'') ?bn ?u)
     = Resolved \<lparr>success = True,
                 warning = Some (''Worktree removed but failed to delete branch: TypeError [ERR_INVALID_ARG_VALUE]: ''
                                 @ ''The argument 'args[2]' must be a string without null bytes. Received 'fe''
                                 @ [CHR 0x5C] @ ''x00at'' @ [CHR 0x27])\<rparr>"
    using removeWorktree_failures
          [where wp = "Some ''/a/proj-feat''" and pp = "Some ''/a/proj''" and bn = ?bn
             and w = ?u and out = "[]" and ?w1.0 = ?u1 and branchError = ?nul and ?w2.0 = ?u2,
           THEN conjunct1]
    by (simp add: exec_eval error_toString_def branch_warning_def)
  from 1 2 3 show ?thesis by (intro conjI)
qed

text \<open>
  Claim C9. Whenever \<open>removeWorktree\<close> resolves, the value has \<^verbatim>\<open>success\<close> true; and
  whenever the worktree-removal command fails, \<open>removeWorktree\<close> rejects.
\<close>

theorem removeWorktree_never_success_false:
  "(fst (removeWorktree pp wp bn w) = Resolved r \<longrightarrow> success r = True)
   \<and> (fst (executeGitCommand [Some ''worktree'', Some ''remove'', wp, Some ''--force'']
              pp w) = Rejected e
      \<longrightarrow> (\<exists>e'. fst (removeWorktree pp wp bn w) = Rejected e'))"
  by (auto simp: removeWorktree_def split: prod.splits outcome.splits)

theorem removeWorktree_never_success_false_witness:
  "(\<exists>r. fst (removeWorktree (Some ''/a/proj'') (Some ''/a/proj-feat'') (Some ''feat'')
               \<lparr>script = [Emits [Close (Some 0)], Emits [Close (Some 0)]],
                spawned = [], env_PATH = Some ''/usr/bin'', process_cwd = Inr ''/''\<rparr>) = Resolved r
        \<and> success r = True)
   \<and> (\<exists>e'. fst (removeWorktree (Some ''/a/proj'') (Some ''/a/proj-feat'') (Some ''feat'')
               \<lparr>script = [Emits [StderrData ''fatal: not a working tree'', Close (Some 128)]],
                spawned = [], env_PATH = Some ''/usr/bin'', process_cwd = Inr ''/''\<rparr>) = Rejected e')"
  using removeWorktree_never_success_false
          [where pp = "Some ''/a/proj''" and wp = "Some ''/a/proj-feat''" and bn = "Some ''feat''"
             and w = "\<lparr>script = [Emits [Close (Some 0)], Emits [Close (Some 0)]],
                      spawned = [], env_PATH = Some ''/usr/bin'', process_cwd = Inr ''/''\<rparr>"
             and r = "\<lparr>success = True, warning = None\<rparr>"]
        removeWorktree_never_success_false
          [where pp = "Some ''/a/proj''" and wp = "Some ''/a/proj-feat''" and bn = "Some ''feat''"
             and w = "\<lparr>script = [Emits [StderrData ''fatal: not a working tree'', Close (Some 128)]],
                      spawned = [], env_PATH = Some ''/usr/bin'', process_cwd = Inr ''/''\<rparr>"
             and e = "new_Error ''fatal: not a working tree''"]
  by (simp add: removeWorktree_def exec_eval)

text \<open>
  Claim C7. For every path, \<open>isGitRepository\<close> runs the probe
  \<^verbatim>\<open>git rev-parse --git-dir\<close> in that path, and nothing else. It never rejects: it
  resolves with true when that probe succeeds and with false when that probe fails,
  for whatever reason.
\<close>

theorem isGitRepository_never_rejects:
  "fst (isGitRepository p w) \<noteq> Rejected e'
   \<and> (fst (executeGitCommand [Some ''rev-parse'', Some ''--git-dir''] p w) = Resolved out
      \<longrightarrow> fst (isGitRepository p w) = Resolved True)
   \<and> (fst (executeGitCommand [Some ''rev-parse'', Some ''--git-dir''] p w) = Rejected e
      \<longrightarrow> fst (isGitRepository p w) = Resolved False)
   \<and> snd (isGitRepository p w)
     = snd (executeGitCommand [Some ''rev-parse'', Some ''--git-dir''] p w)
   \<and> spawned (snd (isGitRepository p w))
     = spawned w @ [([Some ''rev-parse'', Some ''--git-dir''], p)]"
proof -
  have world: "snd (isGitRepository p w)
     = snd (executeGitCommand [Some ''rev-parse'', Some ''--git-dir''] p w)"
    by (auto simp: isGitRepository_def split: prod.splits outcome.splits)
  have "spawned (snd (isGitRepository p w))
     = spawned w @ [([Some ''rev-parse'', Some ''--git-dir''], p)]"
    unfolding world by (rule spawned_executeGitCommand)
  with world show ?thesis
    by (auto simp: isGitRepository_def split: prod.splits outcome.splits)
qed

theorem isGitRepository_never_rejects_witness:
  "isGitRepository (Some ''/a/proj'')
          \<lparr>script = [Emits [StdoutData ''.git'', Close (Some 0)]],
           spawned = [], env_PATH = Some ''/usr/bin'', process_cwd = Inr ''/''\<rparr>
     = (Resolved True,
        \<lparr>script = [], spawned = [([Some ''rev-parse'', Some ''--git-dir''], Some ''/a/proj'')],
         env_PATH = Some ''/usr/bin'', process_cwd = Inr ''/''\<rparr>)
   \<and> isGitRepository (Some ''/tmp'')
          \<lparr>script = [Emits [StderrData ''fatal: not a git repository'', Close (Some 128)]],
           spawned = [], env_PATH = Some ''/usr/bin'', process_cwd = Inr ''/''\<rparr>
     = (Resolved False,
        \<lparr>script = [], spawned = [([Some ''rev-parse'', Some ''--git-dir''], Some ''/tmp'')],
         env_PATH = Some ''/usr/bin'', process_cwd = Inr ''/''\<rparr>)
   \<and> isGitRepository (Some ''/tmp'')
          \<lparr>script = [Emits [ErrorEvent (spawn_error ExecutableMissing)]],
           spawned = [], env_PATH = None, process_cwd = Inr ''/''\<rparr>
     = (Resolved False,
        \<lparr>script = [], spawned = [([Some ''rev-parse'', Some ''--git-dir''], Some ''/tmp'')],
         env_PATH = None, process_cwd = Inr ''/''\<rparr>)"
proof -
  let ?a = "[Some ''rev-parse'', Some ''--git-dir'']"
  let ?w1 = "\<lparr>script = [Emits [StdoutData ''.git'', Close (Some 0)]],
             spawned = [], env_PATH = Some ''/usr/bin'', process_cwd = Inr ''/''\<rparr>"
  let ?w2 = "\<lparr>script = [Emits [StderrData ''fatal: not a git repository'', Close (Some 128)]],
             spawned = [], env_PATH = Some ''/usr/bin'', process_cwd = Inr ''/''\<rparr>"
  let ?w3 = "\<lparr>script = [Emits [ErrorEvent (spawn_error ExecutableMissing)]],
             spawned = [], env_PATH = None, process_cwd = Inr ''/''\<rparr>"
  have p1: "executeGitCommand ?a (Some ''/a/proj'') ?w1
            = (Resolved ''.git'',
               \<lparr>script = [], spawned = [(?a, Some ''/a/proj'')],
                env_PATH = Some ''/usr/bin'', process_cwd = Inr ''/''\<rparr>)"
    by (simp add: exec_eval)
  have p2: "executeGitCommand ?a (Some ''/tmp'') ?w2
            = (Rejected (new_Error ''fatal: not a git repository''),
               \<lparr>script = [], spawned = [(?a, Some ''/tmp'')],
                env_PATH = Some ''/usr/bin'', process_cwd = Inr ''/''\<rparr>)"
    by (simp add: exec_eval)
  have p3: "executeGitCommand ?a (Some ''/tmp'') ?w3
            = (Rejected (new_Error (not_found_message ?a None)),
               \<lparr>script = [], spawned = [(?a, Some ''/tmp'')],
                env_PATH = None, process_cwd = Inr ''/''\<rparr>)"
    by (simp add: exec_eval spawn_error_def)
  have 1: "isGitRepository (Some ''/a/proj'') ?w1
           = (Resolved True,
              \<lparr>script = [], spawned = [(?a, Some ''/a/proj'')],
               env_PATH = Some ''/usr/bin'', process_cwd = Inr ''/''\<rparr>)"
    using isGitRepository_never_rejects
            [where p = "Some ''/a/proj''" and w = ?w1 and out = "''.git''"]
    unfolding p1 by (simp add: prod_eq_iff)
  have 2: "isGitRepository (Some ''/tmp'') ?w2
           = (Resolved False,
              \<lparr>script = [], spawned = [(?a, Some ''/tmp'')],
               env_PATH = Some ''/usr/bin'', process_cwd = Inr ''/''\<rparr>)"
    using isGitRepository_never_rejects
            [where p = "Some ''/tmp''" and w = ?w2 and e = "new_Error ''fatal: not a git repository''"]
    unfolding p2 by (simp add: prod_eq_iff)
  have 3: "isGitRepository (Some ''/tmp'') ?w3
           = (Resolved False,
              \<lparr>script = [], spawned = [(?a, Some ''/tmp'')],
               env_PATH = None, process_cwd = Inr ''/''\<rparr>)"
    using isGitRepository_never_rejects
            [where p = "Some ''/tmp''" and w = ?w3 and e = "new_Error (not_found_message ?a None)"]
    unfolding p3 by (simp add: prod_eq_iff)
  from 1 2 3 show ?thesis by (intro conjI)
qed

lemma promise_of_not_found:
  assumes "executable_not_found r"
  shows "promise_of args pe r = Rejected (new_Error (not_found_message args pe))"
proof (cases r)
  case (Throws e)
  with assms show ?thesis by simp
next
  case (Emits evs)
  let ?pre = "takeWhile is_data evs"
  have pre: "list_all is_data ?pre" by (simp add: list_all_iff) (meson set_takeWhileD)
  from assms Emits obtain e post where d: "dropWhile is_data evs = ErrorEvent e # post"
    and c: "code e = Some ''ENOENT''"
    by (auto split: list.splits event.splits)
  have evs: "evs = ?pre @ ErrorEvent e # post"
    using d takeWhile_dropWhile_id[of is_data evs] by simp
  have "promise (run_events args pe (?pre @ ErrorEvent e # post)) =
        Rejected (new_Error (not_found_message args pe))"
    using c by (simp add: run_events_data_then[OF pre] settle_def)
  with Emits evs show ?thesis by simp
qed

lemma not_found_message_marker:
  "str_includes (not_found_message args pe) ''Git executable not found''"
proof -
  have "not_found_message args pe = [] @ ''Git executable not found'' @
          (''. Please ensure git is installed and available in your PATH.\<newline>''
           @ ''Command attempted: git '' @ join '' '' args @ ''\<newline>''
           @ ''Current PATH: '' @ template pe)"
    by (simp add: not_found_message_def)
  then show ?thesis using str_includes_mid by metis
qed

text \<open>
  Claim C4, as amended. \<open>isGitAvailable\<close> runs the probe \<^verbatim>\<open>git --version\<close> in
  \<^verbatim>\<open>process.cwd()\<close>, and nothing else. It resolves with true when the probe succeeds;
  when the probe fails it resolves with false exactly if the error message contains
  \<^verbatim>\<open>Git executable not found\<close>. The failure for a missing executable always has such a
  message, so it always gives false; a non-zero exit or another error gives false as
  well when its text happens to contain the phrase. When \<^verbatim>\<open>process.cwd()\<close> itself
  throws, git is not run and the thrown error is judged by the same test.
\<close>

theorem isGitAvailable_by_message:
  "(process_cwd w = Inr d
      \<and> fst (executeGitCommand [Some ''--version''] (Some d) w) = Resolved out
      \<longrightarrow> fst (isGitAvailable w) = Resolved True)
   \<and> (process_cwd w = Inr d
      \<and> fst (executeGitCommand [Some ''--version''] (Some d) w) = Rejected e
      \<longrightarrow> fst (isGitAvailable w)
            = Resolved (\<not> str_includes (message e) ''Git executable not found''))
   \<and> (process_cwd w = Inr d \<and> script w = r # rest \<and> executable_not_found r
      \<longrightarrow> fst (isGitAvailable w) = Resolved False)
   \<and> (process_cwd w = Inr d
      \<longrightarrow> snd (isGitAvailable w) = snd (executeGitCommand [Some ''--version''] (Some d) w)
          \<and> spawned (snd (isGitAvailable w)) = spawned w @ [([Some ''--version''], Some d)])
   \<and> (process_cwd w = Inl thrown
      \<longrightarrow> isGitAvailable w
            = (Resolved (\<not> str_includes (message thrown) ''Git executable not found''), w))"
proof -
  have 1: "process_cwd w = Inr d
      \<and> fst (executeGitCommand [Some ''--version''] (Some d) w) = Resolved out
      \<longrightarrow> fst (isGitAvailable w) = Resolved True"
    by (auto simp: isGitAvailable_def split: prod.splits outcome.splits)
  have 2: "process_cwd w = Inr d
      \<and> fst (executeGitCommand [Some ''--version''] (Some d) w) = Rejected e
      \<longrightarrow> fst (isGitAvailable w)
            = Resolved (\<not> str_includes (message e) ''Git executable not found'')"
    by (auto simp: isGitAvailable_def split: prod.splits outcome.splits)
  have 3: "process_cwd w = Inr d \<and> script w = r # rest \<and> executable_not_found r
      \<longrightarrow> fst (isGitAvailable w) = Resolved False"
  proof
    assume a: "process_cwd w = Inr d \<and> script w = r # rest \<and> executable_not_found r"
    then have "fst (executeGitCommand [Some ''--version''] (Some d) w)
                 = Rejected (new_Error (not_found_message [Some ''--version''] (env_PATH w)))"
      by (simp add: executeGitCommand_script promise_of_not_found)
    then show "fst (isGitAvailable w) = Resolved False"
      using a not_found_message_marker[of "[Some ''--version'']" "env_PATH w"]
      by (auto simp: isGitAvailable_def new_Error_def split: prod.splits outcome.splits)
  qed
  have world: "snd (isGitAvailable w) = snd (executeGitCommand [Some ''--version''] (Some d) w)"
    if "process_cwd w = Inr d"
    using that by (auto simp: isGitAvailable_def split: prod.splits outcome.splits)
  have 4: "process_cwd w = Inr d
      \<longrightarrow> snd (isGitAvailable w) = snd (executeGitCommand [Some ''--version''] (Some d) w)
          \<and> spawned (snd (isGitAvailable w)) = spawned w @ [([Some ''--version''], Some d)]"
    using world by (simp add: spawned_executeGitCommand)
  have 5: "process_cwd w = Inl thrown
      \<longrightarrow> isGitAvailable w
            = (Resolved (\<not> str_includes (message thrown) ''Git executable not found''), w)"
    by (simp add: isGitAvailable_def)
  from 1 2 3 4 5 show ?thesis by (intro conjI)
qed

theorem isGitAvailable_by_message_witness:
  "isGitAvailable
          \<lparr>script = [Emits [ErrorEvent (spawn_error ExecutableMissing), Close (Some (- 2))]],
           spawned = [], env_PATH = Some ''/usr/bin'', process_cwd = Inr ''/srv''\<rparr>
     = (Resolved False,
        \<lparr>script = [], spawned = [([Some ''--version''], Some ''/srv'')],
         env_PATH = Some ''/usr/bin'', process_cwd = Inr ''/srv''\<rparr>)
   \<and> isGitAvailable
          \<lparr>script = [Emits [StderrData ''unknown option'', Close (Some 129)]],
           spawned = [], env_PATH = Some ''/usr/bin'', process_cwd = Inr ''/srv''\<rparr>
     = (Resolved True,
        \<lparr>script = [], spawned = [([Some ''--version''], Some ''/srv'')],
         env_PATH = Some ''/usr/bin'', process_cwd = Inr ''/srv''\<rparr>)
   \<and> isGitAvailable
          \<lparr>script = [Emits [StdoutData ''git version 2.43.0'', Close (Some 0)]],
           spawned = [], env_PATH = Some ''/usr/bin'', process_cwd = Inr ''/srv''\<rparr>
     = (Resolved True,
        \<lparr>script = [], spawned = [([Some ''--version''], Some ''/srv'')],
         env_PATH = Some ''/usr/bin'', process_cwd = Inr ''/srv''\<rparr>)
   \<and> isGitAvailable
          \<lparr>script = [Emits [StdoutData ''git version 2.43.0'', Close (Some 0)]],
           spawned = [], env_PATH = Some ''/usr/bin'',
           process_cwd = Inl \<lparr>name = ''Error'',
                              message = ''ENOENT: no such file or directory, uv_cwd'',
                              code = Some ''ENOENT'', node_error_key = None\<rparr>\<rparr>
     = (Resolved True,
        \<lparr>script = [Emits [StdoutData ''git version 2.43.0'', Close (Some 0)]],
         spawned = [], env_PATH = Some ''/usr/bin'',
         process_cwd = Inl \<lparr>name = ''Error'',
                            message = ''ENOENT: no such file or directory, uv_cwd'',
                            code = Some ''ENOENT'', node_error_key = None\<rparr>\<rparr>)"
proof -
  let ?a = "[Some ''--version'']"
  let ?w1 = "\<lparr>script = [Emits [ErrorEvent (spawn_error ExecutableMissing), Close (Some (- 2))]],
             spawned = [], env_PATH = Some ''/usr/bin'', process_cwd = Inr ''/srv''\<rparr>"
  let ?w2 = "\<lparr>script = [Emits [StderrData ''unknown option'', Close (Some 129)]],
             spawned = [], env_PATH = Some ''/usr/bin'', process_cwd = Inr ''/srv''\<rparr>"
  let ?w3 = "\<lparr>script = [Emits [StdoutData ''git version 2.43.0'', Close (Some 0)]],
             spawned = [], env_PATH = Some ''/usr/bin'', process_cwd = Inr ''/srv''\<rparr>"
  let ?gone = "\<lparr>name = ''Error'', message = ''ENOENT: no such file or directory, uv_cwd'',
               code = Some ''ENOENT'', node_error_key = None\<rparr>"
  let ?w4 = "\<lparr>script = [Emits [StdoutData ''git version 2.43.0'', Close (Some 0)]],
             spawned = [], env_PATH = Some ''/usr/bin'', process_cwd = Inl ?gone\<rparr>"
  let ?after = "\<lparr>script = [], spawned = [(?a, Some ''/srv'')],
                env_PATH = Some ''/usr/bin'', process_cwd = Inr ''/srv''\<rparr>"
  have p1: "snd (executeGitCommand ?a (Some ''/srv'') ?w1) = ?after"
    by (simp add: exec_eval)
  have p2: "executeGitCommand ?a (Some ''/srv'') ?w2 = (Rejected (new_Error ''unknown option''), ?after)"
    by (simp add: exec_eval)
  have p3: "executeGitCommand ?a (Some ''/srv'') ?w3 = (Resolved ''git version 2.43.0'', ?after)"
    by (simp add: exec_eval)
  have nf: "executable_not_found (Emits [ErrorEvent (spawn_error ExecutableMissing), Close (Some (- 2))])"
    by (simp add: spawn_error_def)
  note t1 = isGitAvailable_by_message
              [where w = ?w1 and d = "''/srv''"
                 and r = "Emits [ErrorEvent (spawn_error ExecutableMissing), Close (Some (- 2))]"
                 and rest = "[]"]
  have 1: "isGitAvailable ?w1 = (Resolved False, ?after)"
    using t1[THEN conjunct2, THEN conjunct2, THEN conjunct1]
          t1[THEN conjunct2, THEN conjunct2, THEN conjunct2, THEN conjunct1] nf
    unfolding p1 by (simp add: prod_eq_iff)
  note t2 = isGitAvailable_by_message
              [where w = ?w2 and d = "''/srv''" and e = "new_Error ''unknown option''"]
  have 2: "isGitAvailable ?w2 = (Resolved True, ?after)"
    using t2[THEN conjunct2, THEN conjunct1]
          t2[THEN conjunct2, THEN conjunct2, THEN conjunct2, THEN conjunct1]
    unfolding p2 by (simp add: prod_eq_iff new_Error_def)
  note t3 = isGitAvailable_by_message
              [where w = ?w3 and d = "''/srv''" and out = "''git version 2.43.0''"]
  have 3: "isGitAvailable ?w3 = (Resolved True, ?after)"
    using t3[THEN conjunct1]
          t3[THEN conjunct2, THEN conjunct2, THEN conjunct2, THEN conjunct1]
    unfolding p3 by (simp add: prod_eq_iff)
  have 4: "isGitAvailable ?w4 = (Resolved True, ?w4)"
    using isGitAvailable_by_message
            [where w = ?w4 and thrown = ?gone,
             THEN conjunct2, THEN conjunct2, THEN conjunct2, THEN conjunct2]
    by simp
  from 1 2 3 4 show ?thesis by (intro conjI)
qed

text \<open>
  Claim C4 as stated fails: a probe that exits with status 1 after writing
  \<^verbatim>\<open>Git executable not found\<close> to stderr is not the executable-not-found failure, yet
  \<open>isGitAvailable\<close> resolves with false.
\<close>

theorem isGitAvailable_nonzero_exit_counterexample:
  "\<not> executable_not_found (Emits [StderrData ''Git executable not found'', Close (Some 1)])
   \<and> fst (isGitAvailable
            \<lparr>script = [Emits [StderrData ''Git executable not found'', Close (Some 1)]],
             spawned = [], env_PATH = Some ''/usr/bin'', process_cwd = Inr ''/srv''\<rparr>)
       = Resolved False"
  by (simp add: isGitAvailable_def exec_eval new_Error_def)

section \<open>Properties of addWorktree\<close>

lemma split_on_nonempty: "split_on c xs \<noteq> []"
  by (induction xs) (auto split: list.splits)

lemma split_on_no_sep: "c \<notin> set l \<Longrightarrow> split_on c l = [l]"
  by (induction l) auto

lemma split_on_append: "c \<notin> set l \<Longrightarrow> split_on c (l @ c # rest) = l # split_on c rest"
  by (induction l) auto

lemma intercalate_append:
  "xs \<noteq> [] \<Longrightarrow> ys \<noteq> [] \<Longrightarrow>
   intercalate sep (xs @ ys) = intercalate sep xs @ sep @ intercalate sep ys"
proof (induction sep xs rule: intercalate.induct)
  case (1 sep)
  then show ?case by simp
next
  case (2 sep x)
  then show ?case by (cases ys) simp_all
next
  case (3 sep x y ys')
  then show ?case by simp
qed

lemma intercalate_snoc:
  "xs \<noteq> [] \<Longrightarrow> intercalate sep (xs @ [y]) = intercalate sep xs @ sep @ y"
  using intercalate_append[of xs "[y]" sep] by simp

lemma split_on_intercalate:
  "segs \<noteq> [] \<Longrightarrow> list_all (\<lambda>s. c \<notin> set s) segs \<Longrightarrow>
   split_on c (intercalate [c] segs) = segs"
proof (induction "[c]" segs rule: intercalate.induct)
  case 1
  then show ?case by simp
next
  case (2 x)
  then show ?case by (simp add: split_on_no_sep)
next
  case (3 x y ys)
  then show ?case by (simp add: split_on_append)
qed

lemma normalize_segments_proper:
  "list_all proper_segment ss \<Longrightarrow>
   normalize_segments allow res (ss @ rest) = normalize_segments allow (res @ ss) rest"
  by (induction ss arbitrary: res) (auto simp: proper_segment_def)

lemma intercalate_empty_iff:
  "list_all (\<lambda>s. s \<noteq> []) segs \<Longrightarrow> intercalate sep segs = [] \<longleftrightarrow> segs = []"
  by (induction sep segs rule: intercalate.induct) auto

lemma hd_intercalate:
  "segs \<noteq> [] \<Longrightarrow> hd segs \<noteq> [] \<Longrightarrow> hd (intercalate sep segs) = hd (hd segs)"
  by (induction sep segs rule: intercalate.induct) auto

lemma intercalate_nonempty_last:
  "segs \<noteq> [] \<Longrightarrow> last segs \<noteq> [] \<Longrightarrow> intercalate sep segs \<noteq> []"
  by (induction sep segs rule: intercalate.induct) auto

lemma last_intercalate:
  "segs \<noteq> [] \<Longrightarrow> last segs \<noteq> [] \<Longrightarrow> last (intercalate sep segs) = last (last segs)"
proof (induction sep segs rule: intercalate.induct)
  case (1 sep)
  then show ?case by simp
next
  case (2 sep x)
  then show ?case by simp
next
  case (3 sep x y ys)
  then have "intercalate sep (y # ys) \<noteq> []"
    using intercalate_nonempty_last[of "y # ys" sep] by simp
  with 3 show ?case by simp
qed

lemma path_basename_last:
  assumes "s \<noteq> []" and "slash \<notin> set s" and "pre = [] \<or> last pre = slash"
  shows "path_basename (pre @ s) = s"
proof -
  have nz: "rev s \<noteq> []" and h: "hd (rev s) \<noteq> slash"
    using assms(1,2) by (auto simp: hd_rev) (metis last_in_set)
  have d: "dropWhile (\<lambda>c. c = slash) (rev s @ rev pre) = rev s @ rev pre"
    using nz h by (cases "rev s") auto
  have "takeWhile (\<lambda>c. c \<noteq> slash) (rev pre) = []"
    using assms(3) by (cases "rev pre") (auto simp: last_rev [symmetric] hd_rev)
  then have t: "takeWhile (\<lambda>c. c \<noteq> slash) (rev s @ rev pre) = rev s"
    using assms(2) by (subst takeWhile_append2) auto
  show ?thesis by (simp add: path_basename_def d t)
qed


lemma slash_string: "''/'' = [slash]"
  by (simp add: slash_def)

lemma proper_segment_suffixed:
  assumes "proper_segment l" and "slash \<notin> set b"
  shows "proper_segment (l @ ''-'' @ b)"
proof -
  have "CHR ''-'' \<in> set (l @ ''-'' @ b)" by simp
  moreover have "CHR ''-'' \<notin> set ''.''" and "CHR ''-'' \<notin> set ''..''" by simp_all
  ultimately have "l @ ''-'' @ b \<noteq> ''.''" and "l @ ''-'' @ b \<noteq> ''..''" by metis+
  moreover have "slash \<notin> set (l @ ''-'' @ b)"
    using assms by (simp add: proper_segment_def slash_def)
  ultimately show ?thesis by (simp add: proper_segment_def)
qed

lemma normalize_segments_sibling:
  assumes "segs \<noteq> []" and "list_all proper_segment segs" and "proper_segment n"
    and that: "pre0 = [] \<or> pre0 = [[]]"
  shows "normalize_segments allow [] (pre0 @ segs @ [''..'', n]) = butlast segs @ [n]"
proof -
  have "normalize_segments allow [] (pre0 @ segs @ [''..'', n])
        = normalize_segments allow [] (segs @ [''..'', n])"
    using that by auto
  also have "\<dots> = normalize_segments allow segs [''..'', n]"
    using normalize_segments_proper[OF assms(2), of allow "[]" "[''..'', n]"] by simp
  also have "\<dots> = normalize_segments allow (butlast segs) [n]"
  proof -
    have "proper_segment (last segs)"
      using assms(1,2) by (simp add: list_all_iff)
    then have "last segs \<noteq> ''..''" by (simp add: proper_segment_def)
    with assms(1) show ?thesis by simp
  qed
  also have "\<dots> = butlast segs @ [n]"
    using assms(3) by (simp add: proper_segment_def)
  finally show ?thesis .
qed

lemma path_basename_of_segments:
  assumes "segs \<noteq> []" and "list_all proper_segment segs"
  shows "path_basename (path_of_segments a segs) = last segs"
proof -
  have l: "proper_segment (last segs)"
    using assms by (simp add: list_all_iff)
  define pre where "pre = (if a then ''/'' else []) @
     (if butlast segs = [] then [] else intercalate ''/'' (butlast segs) @ ''/'')"
  have "intercalate ''/'' segs =
        (if butlast segs = [] then [] else intercalate ''/'' (butlast segs) @ ''/'') @ last segs"
  proof (cases "butlast segs = []")
    case True
    with assms(1) have "segs = [last segs]"
      by (metis append_butlast_last_id append_Nil)
    then have "intercalate ''/'' segs = last segs" by (metis intercalate.simps(2))
    with True show ?thesis by simp
  next
    case False
    have "intercalate ''/'' (butlast segs @ [last segs]) =
          intercalate ''/'' (butlast segs) @ ''/'' @ last segs"
      using False by (rule intercalate_snoc)
    with assms(1) False show ?thesis by simp
  qed
  then have p: "path_of_segments a segs = pre @ last segs"
    by (simp add: path_of_segments_def pre_def)
  have "pre = [] \<or> last pre = slash"
    by (simp add: pre_def slash_def)
  with l show ?thesis
    unfolding p by (intro path_basename_last) (simp_all add: proper_segment_def)
qed

lemma path_join_sibling:
  assumes "segs \<noteq> []" and "list_all proper_segment segs" and "slash \<notin> set b"
  shows "path_join [path_of_segments a segs, ''..'',
                    path_basename (path_of_segments a segs) @ ''-'' @ b]
         = path_of_segments a (butlast segs @ [last segs @ ''-'' @ b])"
proof -
  let ?p = "path_of_segments a segs"
  let ?n = "last segs @ ''-'' @ b"
  let ?all = "segs @ [''..'', ?n]"
  let ?joined = "(if a then ''/'' else []) @ intercalate ''/'' ?all"
  have l: "proper_segment (last segs)"
    using assms(1,2) by (simp add: list_all_iff)
  have n: "proper_segment ?n"
    using l assms(3) by (rule proper_segment_suffixed)
  have h: "proper_segment (hd segs)"
    using assms(1,2) by (cases segs) simp_all
  have base: "path_basename ?p = last segs"
    using assms(1,2) by (rule path_basename_of_segments)
  have seg_ne: "intercalate ''/'' segs \<noteq> []"
    using assms(1) l by (intro intercalate_nonempty_last) (simp_all add: proper_segment_def)
  have joined: "intercalate ''/'' [?p, ''..'', ?n] = ?joined"
    using intercalate_append[OF assms(1), of "[''..'', ?n]" "''/''"]
    by (simp add: path_of_segments_def)
  have p_ne: "?p \<noteq> []" using seg_ne by (simp add: path_of_segments_def)
  have "path_join [?p, ''..'', path_basename ?p @ ''-'' @ b] = path_normalize ?joined"
    using p_ne joined by (simp add: path_join_def base)
  moreover have "path_normalize ?joined = path_of_segments a (butlast segs @ [?n])"
  proof -
    have noslash: "list_all (\<lambda>s. slash \<notin> set s) ?all"
      using assms(2) n by (simp add: list_all_iff proper_segment_def slash_def)
    have sp: "split_on slash (intercalate ''/'' ?all) = ?all"
      unfolding slash_string using noslash by (intro split_on_intercalate) simp_all
    have split: "split_on slash ?joined = (if a then [[]] else []) @ ?all"
      using sp by (simp add: slash_string)
    have norm: "normalize_segments (\<not> a') [] (split_on slash ?joined) = butlast segs @ [?n]" for a'
      unfolding split
      using normalize_segments_sibling[OF assms(1,2) n, of "if a then [[]] else []" "\<not> a'"]
      by simp
    have all_ne: "intercalate ''/'' ?all \<noteq> []"
      using n by (intro intercalate_nonempty_last) (simp_all add: proper_segment_def)
    have hd_all: "hd (intercalate ''/'' ?all) \<noteq> slash"
    proof -
      have "hd (intercalate ''/'' ?all) = hd (hd ?all)"
        using assms(1) h by (intro hd_intercalate) (simp_all add: proper_segment_def)
      also have "\<dots> = hd (hd segs)" using assms(1) by simp
      finally show ?thesis using h by (auto simp: proper_segment_def) (metis hd_in_set)
    qed
    have isAbs: "(hd ?joined = slash) = a"
      using hd_all all_ne by (simp add: slash_def)
    have last_all: "last (intercalate ''/'' ?all) \<noteq> slash"
    proof -
      have "last (intercalate ''/'' ?all) = last (last ?all)"
        using n by (intro last_intercalate) (simp_all add: proper_segment_def)
      also have "\<dots> = last ?n" by simp
      finally show ?thesis using n by (metis last_in_set proper_segment_def)
    qed
    have trailing: "last ?joined \<noteq> slash"
      using last_all all_ne by simp
    have res_ne: "intercalate ''/'' (butlast segs @ [?n]) \<noteq> []"
      using n by (intro intercalate_nonempty_last) (simp_all add: proper_segment_def)
    have j_ne: "?joined \<noteq> []" using all_ne by simp
    show ?thesis
      unfolding path_normalize_def Let_def isAbs norm path_of_segments_def
      using j_ne trailing res_ne by simp
  qed
  ultimately show ?thesis by simp
qed


text \<open>
  Claim C3, as amended. For every project path and branch name (both strings),
  \<open>addWorktree\<close> calls git exactly once, with \<^verbatim>\<open>worktree add -b <branchName> <targetDir>\<close>
  in the project path, where the target directory is
  \<^verbatim>\<open>path.join(projectPath, '..', basename(projectPath) + '-' + branchName)\<close>; it resolves
  when that command does, with that directory (computed from the inputs, whatever
  git printed) and the branch name, and otherwise rejects or stays pending as the
  command does. When the project path is made of ordinary segments and the branch
  name has no slash, the target directory is the sibling of the project path named
  \<^verbatim>\<open><basename>-<branchName>\<close>.
\<close>

theorem addWorktree_result:
  "spawned (snd (addWorktree (Some p) (Some b) w))
     = spawned w @ [([Some ''worktree'', Some ''add'', Some ''-b'', Some b,
                      Some (path_join [p, ''..'', path_basename p @ ''-'' @ b])], Some p)]
   \<and> fst (addWorktree (Some p) (Some b) w)
     = (case fst (executeGitCommand
                   [Some ''worktree'', Some ''add'', Some ''-b'', Some b,
                    Some (path_join [p, ''..'', path_basename p @ ''-'' @ b])] (Some p) w) of
          Pending \<Rightarrow> Pending
        | Rejected e \<Rightarrow> Rejected e
        | Resolved out \<Rightarrow>
            Resolved \<lparr>path = path_join [p, ''..'', path_basename p @ ''-'' @ b], branch = Some b\<rparr>)
   \<and> (segs \<noteq> [] \<and> list_all proper_segment segs \<and> p = path_of_segments absolute segs
        \<and> slash \<notin> set b
      \<longrightarrow> path_join [p, ''..'', path_basename p @ ''-'' @ b]
            = path_of_segments absolute (butlast segs @ [last segs @ ''-'' @ b]))"
proof -
  let ?dir = "path_join [p, ''..'', path_basename p @ ''-'' @ b]"
  let ?args = "[Some ''worktree'', Some ''add'', Some ''-b'', Some b, Some ?dir]"
  obtain r w' where ex: "executeGitCommand ?args (Some p) w = (r, w')"
    by (cases "executeGitCommand ?args (Some p) w")
  have sp: "spawned w' = spawned w @ [(?args, Some p)]"
    using spawned_executeGitCommand[of ?args "Some p" w] ex by simp
  have 1: "spawned (snd (addWorktree (Some p) (Some b) w)) = spawned w @ [(?args, Some p)]"
    using ex sp by (cases r) (simp_all add: addWorktree_def)
  have 2: "fst (addWorktree (Some p) (Some b) w)
     = (case fst (executeGitCommand ?args (Some p) w) of
          Pending \<Rightarrow> Pending
        | Rejected e \<Rightarrow> Rejected e
        | Resolved out \<Rightarrow> Resolved \<lparr>path = ?dir, branch = Some b\<rparr>)"
    using ex by (cases r) (simp_all add: addWorktree_def)
  have 3: "segs \<noteq> [] \<and> list_all proper_segment segs \<and> p = path_of_segments absolute segs
        \<and> slash \<notin> set b
      \<longrightarrow> ?dir = path_of_segments absolute (butlast segs @ [last segs @ ''-'' @ b])"
    using path_join_sibling by blast
  from 1 2 3 show ?thesis by blast
qed


theorem addWorktree_result_witness:
  "fst (addWorktree (Some ''/a/proj'') (Some ''feat'')
          \<lparr>script = [Emits [StdoutData ''Preparing worktree (new branch)'', Close (Some 0)]],
           spawned = [], env_PATH = Some ''/usr/bin'', process_cwd = Inr ''/''\<rparr>)
     = Resolved \<lparr>path = ''/a/proj-feat'', branch = Some ''feat''\<rparr>
   \<and> spawned (snd (addWorktree (Some ''/a/proj'') (Some ''feat'')
          \<lparr>script = [Emits [StdoutData ''Preparing worktree (new branch)'', Close (Some 0)]],
           spawned = [], env_PATH = Some ''/usr/bin'', process_cwd = Inr ''/''\<rparr>))
     = [([Some ''worktree'', Some ''add'', Some ''-b'', Some ''feat'', Some ''/a/proj-feat''],
         Some ''/a/proj'')]"
proof -
  let ?w = "\<lparr>script = [Emits [StdoutData ''Preparing worktree (new branch)'', Close (Some 0)]],
            spawned = [], env_PATH = Some ''/usr/bin'', process_cwd = Inr ''/''\<rparr>"
  have segs: "[''a'', ''proj''] \<noteq> [] \<and> list_all proper_segment [''a'', ''proj'']
              \<and> ''/a/proj'' = path_of_segments True [''a'', ''proj''] \<and> slash \<notin> set ''feat''"
    by (simp add: proper_segment_def path_of_segments_def slash_def)
  note r = addWorktree_result
      [where p = "''/a/proj''" and b = "''feat''" and segs = "[''a'', ''proj'']" and absolute = True
         and w = ?w]
  have dir: "path_join [''/a/proj'', ''..'', path_basename ''/a/proj'' @ ''-'' @ ''feat'']
             = ''/a/proj-feat''"
    using r[THEN conjunct2, THEN conjunct2, THEN mp, OF segs]
    by (simp add: path_of_segments_def)
  have ex: "fst (executeGitCommand
                   [Some ''worktree'', Some ''add'', Some ''-b'', Some ''feat'', Some ''/a/proj-feat'']
                   (Some ''/a/proj'') ?w) = Resolved ''Preparing worktree (new branch)''"
    by (simp add: exec_eval)
  have 1: "fst (addWorktree (Some ''/a/proj'') (Some ''feat'') ?w)
           = Resolved \<lparr>path = ''/a/proj-feat'', branch = Some ''feat''\<rparr>"
    using r[THEN conjunct2, THEN conjunct1] unfolding dir ex by simp
  have 2: "spawned (snd (addWorktree (Some ''/a/proj'') (Some ''feat'') ?w))
           = [([Some ''worktree'', Some ''add'', Some ''-b'', Some ''feat'', Some ''/a/proj-feat''],
               Some ''/a/proj'')]"
    using r[THEN conjunct1] unfolding dir by simp
  from 1 2 show ?thesis by (rule conjI)
qed

lemma worktree_dir_nested:
  "path_join [''/a/proj'', ''..'', path_basename ''/a/proj'' @ ''-'' @ ''feature/x''] = ''/a/proj-feature/x''"
  by code_simp


text \<open>
  Claim C3 as stated fails for a branch name with a slash: for \<^verbatim>\<open>/a/proj\<close> and
  \<^verbatim>\<open>feature/x\<close> the returned path is \<^verbatim>\<open>/a/proj-feature/x\<close>, a directory named \<^verbatim>\<open>x\<close>
  inside \<^verbatim>\<open>/a/proj-feature\<close>, not a sibling of \<^verbatim>\<open>/a/proj\<close> named
  \<^verbatim>\<open>proj-feature/x\<close>.
\<close>

theorem addWorktree_nested_branch_counterexample:
  "fst (addWorktree (Some ''/a/proj'') (Some ''feature/x'')
          \<lparr>script = [Emits [Close (Some 0)]],
           spawned = [], env_PATH = Some ''/usr/bin'', process_cwd = Inr ''/''\<rparr>)
     = Resolved \<lparr>path = ''/a/proj-feature/x'', branch = Some ''feature/x''\<rparr>
   \<and> path_basename ''/a/proj-feature/x'' \<noteq> path_basename ''/a/proj'' @ ''-'' @ ''feature/x''"
proof -
  have b1: "path_basename ''/a/proj-feature/x'' = ''x''" by code_simp
  have b2: "path_basename ''/a/proj'' = ''proj''" by code_simp
  have 1: "fst (addWorktree (Some ''/a/proj'') (Some ''feature/x'')
          \<lparr>script = [Emits [Close (Some 0)]],
           spawned = [], env_PATH = Some ''/usr/bin'', process_cwd = Inr ''/''\<rparr>)
     = Resolved \<lparr>path = ''/a/proj-feature/x'', branch = Some ''feature/x''\<rparr>"
    by (simp add: addWorktree_def Let_def worktree_dir_nested[simplified] exec_eval)
  have 2: "path_basename ''/a/proj-feature/x'' \<noteq> path_basename ''/a/proj'' @ ''-'' @ ''feature/x''"
    unfolding b1 b2 by simp
  from 1 2 show ?thesis by (rule conjI)
qed

section \<open>Properties of the worktree-list parser\<close>

lemma split_on_lines:
  "list_all (\<lambda>l. c \<notin> set l) ls \<Longrightarrow>
   split_on c (concat (map (\<lambda>l. l @ [c]) ls) @ rest) = ls @ split_on c rest"
  by (induction ls) (simp_all add: split_on_append)

lemma split_on_snoc_sep: "split_on c (xs @ [c]) = split_on c xs @ [[]]"
proof (induction xs)
  case Nil
  then show ?case by simp
next
  case (Cons x xs)
  then show ?case
    by (cases "split_on c xs") (auto simp: split_on_nonempty)
qed

lemma split_on_trailing: "split_on c (xs @ replicate k c) = split_on c xs @ replicate k []"
proof (induction k)
  case 0
  then show ?case by simp
next
  case (Suc k)
  have "xs @ replicate (Suc k) c = (xs @ replicate k c) @ [c]"
    by (simp add: replicate_append_same)
  then have "split_on c (xs @ replicate (Suc k) c) = split_on c (xs @ replicate k c) @ [[]]"
    by (simp only: split_on_snoc_sep)
  with Suc show ?case by (simp add: replicate_append_same)
qed

lemma split_on_intercalate_then:
  assumes "r \<noteq> []" and "list_all (\<lambda>l. c \<notin> set l) r"
  shows "split_on c (intercalate [c] r @ c # rest) = r @ split_on c rest"
proof -
  have t: "intercalate [c] r @ [c] = concat (map (\<lambda>l. l @ [c]) r)"
    using assms(1) by (induction "[c]" r rule: intercalate.induct) simp_all
  have "intercalate [c] r @ c # rest = (intercalate [c] r @ [c]) @ rest"
    by simp
  also have "\<dots> = concat (map (\<lambda>l. l @ [c]) r) @ rest"
    by (simp only: t)
  finally have e: "intercalate [c] r @ c # rest = concat (map (\<lambda>l. l @ [c]) r) @ rest" .
  show ?thesis
    unfolding e by (rule split_on_lines[OF assms(2)])
qed

lemma lines_of_separated_text:
  "recs \<noteq> [] \<Longrightarrow> list_all valid_record recs \<Longrightarrow>
   split_on [] (split_on newline (separated_text recs)) = recs"
proof (induction recs rule: induct_list012)
  case 1
  then show ?case by simp
next
  case (2 r)
  then have r: "r \<noteq> []" "list_all (\<lambda>l. newline \<notin> set l) r" "[] \<notin> set r"
    by (auto simp: valid_record_def list_all_iff)
  have "split_on newline (separated_text [r]) = r"
    using r by (simp add: separated_text_def split_on_intercalate)
  then show ?case using r(3) by (simp add: split_on_no_sep)
next
  case (3 r r' rs)
  then have r: "r \<noteq> []" "list_all (\<lambda>l. newline \<notin> set l) r" "[] \<notin> set r"
    by (auto simp: valid_record_def list_all_iff)
  have "separated_text (r # r' # rs)
        = intercalate [newline] r @ newline # (newline # separated_text (r' # rs))"
    by (simp add: separated_text_def)
  then have "split_on newline (separated_text (r # r' # rs))
        = r @ split_on newline (newline # separated_text (r' # rs))"
    using split_on_intercalate_then[OF r(1,2)] by simp
  then have "split_on newline (separated_text (r # r' # rs))
        = r @ [] # split_on newline (separated_text (r' # rs))"
    by simp
  then have "split_on [] (split_on newline (separated_text (r # r' # rs)))
        = r # split_on [] (split_on newline (separated_text (r' # rs)))"
    using split_on_append[OF r(3)] by simp
  with 3 show ?case by simp
qed

lemma split_records_separated_text:
  assumes "list_all valid_record recs"
  shows "split_records (split_on newline (porcelain_text recs k)) = recs"
proof -
  have nonempty: "filter (\<lambda>r. r \<noteq> []) recs = recs"
    using assms by (simp add: valid_record_def list_all_iff)
  have "filter (\<lambda>r. r \<noteq> []) (split_on [] (split_on newline (separated_text recs))) = recs"
  proof (cases "recs = []")
    case True
    then show ?thesis by (simp add: separated_text_def)
  next
    case False
    then show ?thesis using lines_of_separated_text[OF False assms] nonempty by simp
  qed
  then show ?thesis
    by (simp add: split_records_def porcelain_text_def split_on_trailing)
qed

lemma isMain_parse_record_line: "isMain (parse_record_line wt l) = isMain wt"
  by (simp add: parse_record_line_def)

lemma isMain_foldl_parse: "isMain (foldl parse_record_line wt ls) = isMain wt"
  by (induction ls arbitrary: wt) (simp_all add: isMain_parse_record_line)

lemma isMain_parse_record: "isMain (parse_record m ls) = m"
  by (simp add: parse_record_def isMain_foldl_parse)

lemma parseWorktrees_porcelain_text:
  assumes "list_all valid_record recs"
  shows "parseWorktrees (porcelain_text recs k)
         = (case recs of [] \<Rightarrow> [] | r # rs \<Rightarrow> parse_record True r # map (parse_record False) rs)"
  by (simp add: parseWorktrees_def split_records_separated_text[OF assms])

text \<open>
  Claim C6. For a text of \<open>N\<close> valid records separated by blank lines (with any number
  of newlines at its end), the worktree-list parser returns exactly \<open>N\<close> entries, of
  which the first and only the first is marked as the main worktree; and
  \<open>listWorktrees\<close>, given this parser, resolves with that list when git printed that
  text.
\<close>

theorem parseWorktrees_count:
  assumes "list_all valid_record recs"
  shows "length (parseWorktrees (porcelain_text recs k)) = length recs
         \<and> (\<forall>i < length recs. isMain (parseWorktrees (porcelain_text recs k) ! i) \<longleftrightarrow> i = 0)
         \<and> (fst (executeGitCommand [Some ''worktree'', Some ''list'', Some ''--porcelain''] pp w)
              = Resolved (porcelain_text recs k)
            \<longrightarrow> fst (listWorktrees (\<lambda>output. Inr (parseWorktrees output)) pp w)
                 = Resolved (parseWorktrees (porcelain_text recs k)))"
proof -
  have 1: "length (parseWorktrees (porcelain_text recs k)) = length recs"
    by (simp add: parseWorktrees_porcelain_text[OF assms] split: list.splits)
  have 2: "\<forall>i < length recs. isMain (parseWorktrees (porcelain_text recs k) ! i) \<longleftrightarrow> i = 0"
  proof (intro allI impI)
    fix i assume "i < length recs"
    then show "isMain (parseWorktrees (porcelain_text recs k) ! i) \<longleftrightarrow> i = 0"
      unfolding parseWorktrees_porcelain_text[OF assms]
      by (cases recs; cases i) (simp_all add: isMain_parse_record)
  qed
  have 3: "fst (executeGitCommand [Some ''worktree'', Some ''list'', Some ''--porcelain''] pp w)
              = Resolved (porcelain_text recs k)
            \<longrightarrow> fst (listWorktrees (\<lambda>output. Inr (parseWorktrees output)) pp w)
                 = Resolved (parseWorktrees (porcelain_text recs k))"
    by (auto simp: listWorktrees_def split: prod.splits outcome.splits)
  from 1 2 3 show ?thesis by blast
qed

theorem parseWorktrees_count_witness:
  "porcelain_text
      [[''worktree /a/proj'', ''HEAD 1a2b'', ''branch refs/heads/main''],
       [''worktree /a/proj-feat'', ''HEAD 3c4d'', ''detached'']] 2
     = ''worktree /a/proj\<newline>HEAD 1a2b\<newline>branch refs/heads/main\<newline>\<newline>''
       @ ''worktree /a/proj-feat\<newline>HEAD 3c4d\<newline>detached\<newline>\<newline>''
   \<and> length (parseWorktrees (porcelain_text
      [[''worktree /a/proj'', ''HEAD 1a2b'', ''branch refs/heads/main''],
       [''worktree /a/proj-feat'', ''HEAD 3c4d'', ''detached'']] 2)) = 2
   \<and> isMain (parseWorktrees (porcelain_text
      [[''worktree /a/proj'', ''HEAD 1a2b'', ''branch refs/heads/main''],
       [''worktree /a/proj-feat'', ''HEAD 3c4d'', ''detached'']] 2) ! 0)
   \<and> \<not> isMain (parseWorktrees (porcelain_text
      [[''worktree /a/proj'', ''HEAD 1a2b'', ''branch refs/heads/main''],
       [''worktree /a/proj-feat'', ''HEAD 3c4d'', ''detached'']] 2) ! 1)"
proof -
  have v: "list_all valid_record
      [[''worktree /a/proj'', ''HEAD 1a2b'', ''branch refs/heads/main''],
       [''worktree /a/proj-feat'', ''HEAD 3c4d'', ''detached'']]"
    by (simp add: valid_record_def newline_def)
  have t: "porcelain_text
      [[''worktree /a/proj'', ''HEAD 1a2b'', ''branch refs/heads/main''],
       [''worktree /a/proj-feat'', ''HEAD 3c4d'', ''detached'']] 2
     = ''worktree /a/proj\<newline>HEAD 1a2b\<newline>branch refs/heads/main\<newline>\<newline>''
       @ ''worktree /a/proj-feat\<newline>HEAD 3c4d\<newline>detached\<newline>\<newline>''"
    by (simp add: porcelain_text_def separated_text_def newline_def numeral_2_eq_2)
  show ?thesis
    using parseWorktrees_count[OF v, of 2] t by simp
qed

section \<open>Properties of the directory handler\<close>

text \<open>
  Claim C8. \<^verbatim>\<open>GET /api/directories\<close> answers a missing path, an empty path and a path
  of more than 1000 characters with status 400 and a body that has an \<^verbatim>\<open>error\<close> field,
  whatever \<^verbatim>\<open>validatePath\<close> and \<^verbatim>\<open>listDirectories\<close> would do.
\<close>

theorem get_directories_bad_path:
  assumes "q = QUndefined \<or> q = QString [] \<or> (q = QString p \<and> 1000 < length p)"
  shows "\<exists>r. get_directories validatePath listDirectories q = Some r
              \<and> status r = 400 \<and> has_error_field (body r)
              \<and> body r = JError ''Invalid path parameter''"
  using assms by (auto simp: get_directories_def)

theorem get_directories_bad_path_witness:
  "(\<exists>r. get_directories (\<lambda>p. Resolved \<lparr>valid = True, error = None\<rparr>)
            (\<lambda>p. Resolved [''src'', ''docs''])
            QUndefined = Some (r :: (unit, unit, string list) response)
        \<and> status r = 400 \<and> has_error_field (body r))
   \<and> (\<exists>r. get_directories (\<lambda>p. Resolved \<lparr>valid = True, error = None\<rparr>)
            (\<lambda>p. Resolved [''src'', ''docs''])
            (QString []) = Some (r :: (unit, unit, string list) response)
        \<and> status r = 400 \<and> has_error_field (body r))
   \<and> (\<exists>r. get_directories (\<lambda>p. Resolved \<lparr>valid = True, error = None\<rparr>)
            (\<lambda>p. Resolved [''src'', ''docs''])
            (QString (replicate 1001 (CHR ''a''))) = Some (r :: (unit, unit, string list) response)
        \<and> status r = 400 \<and> has_error_field (body r))"
  using get_directories_bad_path
          [where q = QUndefined and validatePath = "\<lambda>p. Resolved \<lparr>valid = True, error = None\<rparr>"
             and listDirectories = "\<lambda>p. Resolved [''src'', ''docs'']"]
        get_directories_bad_path
          [where q = "QString []" and validatePath = "\<lambda>p. Resolved \<lparr>valid = True, error = None\<rparr>"
             and listDirectories = "\<lambda>p. Resolved [''src'', ''docs'']"]
        get_directories_bad_path
          [where q = "QString (replicate 1001 (CHR ''a''))" and p = "replicate 1001 (CHR ''a'')"
             and validatePath = "\<lambda>p. Resolved \<lparr>valid = True, error = None\<rparr>"
             and listDirectories = "\<lambda>p. Resolved [''src'', ''docs'']"]
  by simp blast

section \<open>Properties of the git handlers\<close>

lemma reply_of_status:
  "reply_of to_json v = Some r \<Longrightarrow> status r = 200 \<or> status r = 500"
  by (auto simp: reply_of_def split: outcome.splits)

lemma fst_respond: "fst (respond to_json x) = reply_of to_json (fst x)"
  by (cases x) (simp add: respond_def)

lemma snd_respond: "snd (respond to_json x) = snd x"
  by (cases x) (simp add: respond_def)

lemma spawned_listWorktrees:
  "spawned (snd (listWorktrees parser pp w))
     = spawned w @ [([Some ''worktree'', Some ''list'', Some ''--porcelain''], pp)]"
proof -
  obtain r w' where ex:
    "executeGitCommand [Some ''worktree'', Some ''list'', Some ''--porcelain''] pp w = (r, w')"
    by (cases "executeGitCommand [Some ''worktree'', Some ''list'', Some ''--porcelain''] pp w")
  then have "spawned w' = spawned w @ [([Some ''worktree'', Some ''list'', Some ''--porcelain''], pp)]"
    using spawned_executeGitCommand[of "[Some ''worktree'', Some ''list'', Some ''--porcelain'']" pp w]
    by simp
  with ex show ?thesis
    by (cases r) (simp_all add: listWorktrees_def split: sum.splits)
qed

lemma spawned_getGitStatus:
  "spawned (snd (getGitStatus parser wp w))
     = spawned w @ [([Some ''status'', Some ''--porcelain=v1''], wp)]"
proof -
  obtain r w' where ex:
    "executeGitCommand [Some ''status'', Some ''--porcelain=v1''] wp w = (r, w')"
    by (cases "executeGitCommand [Some ''status'', Some ''--porcelain=v1''] wp w")
  then have "spawned w' = spawned w @ [([Some ''status'', Some ''--porcelain=v1''], wp)]"
    using spawned_executeGitCommand[of "[Some ''status'', Some ''--porcelain=v1'']" wp w]
    by simp
  with ex show ?thesis
    by (cases r) (simp_all add: getGitStatus_def split: sum.splits)
qed

lemma spawned_getGitDiff:
  "spawned (snd (getGitDiff wp fp w))
     = spawned w @ [(Some ''diff'' # (if truthy fp then [fp] else []), wp)]"
  by (simp add: getGitDiff_def spawned_executeGitCommand)

lemma spawned_removeWorktree:
  "\<exists>more. spawned (snd (removeWorktree pp wp bn w))
     = spawned w @ ([Some ''worktree'', Some ''remove'', wp, Some ''--force''], pp) # more"
proof -
  let ?a = "[Some ''worktree'', Some ''remove'', wp, Some ''--force'']"
  obtain r w1 where ex: "executeGitCommand ?a pp w = (r, w1)"
    by (cases "executeGitCommand ?a pp w")
  then have s1: "spawned w1 = spawned w @ [(?a, pp)]"
    using spawned_executeGitCommand[of ?a pp w] by simp
  show ?thesis
  proof (cases r)
    case (Resolved out)
    obtain r2 w2 where ex2: "executeGitCommand [Some ''branch'', Some ''-D'', bn] pp w1 = (r2, w2)"
      by (cases "executeGitCommand [Some ''branch'', Some ''-D'', bn] pp w1")
    then have "spawned w2 = spawned w1 @ [([Some ''branch'', Some ''-D'', bn], pp)]"
      using spawned_executeGitCommand[of "[Some ''branch'', Some ''-D'', bn]" pp w1] by simp
    with ex ex2 s1 Resolved show ?thesis
      by (cases r2) (simp_all add: removeWorktree_def)
  qed (use ex s1 in \<open>simp_all add: removeWorktree_def\<close>)
qed

lemma addWorktree_undefined_project:
  "addWorktree None bn w = (Rejected path_type_error, w)"
  by (simp add: addWorktree_def)

lemma spawned_addWorktree:
  "spawned (snd (addWorktree (Some p) bn w))
     = spawned w @ [([Some ''worktree'', Some ''add'', Some ''-b'', bn,
                      Some (path_join [p, ''..'', path_basename p @ ''-'' @ template bn])], Some p)]"
proof -
  let ?a = "[Some ''worktree'', Some ''add'', Some ''-b'', bn,
             Some (path_join [p, ''..'', path_basename p @ ''-'' @ template bn])]"
  obtain r w' where ex: "executeGitCommand ?a (Some p) w = (r, w')"
    by (cases "executeGitCommand ?a (Some p) w")
  then have "spawned w' = spawned w @ [(?a, Some p)]"
    using spawned_executeGitCommand[of ?a "Some p" w] by simp
  with ex show ?thesis
    by (cases r) (simp_all add: addWorktree_def)
qed

text \<open>
  Claim C10. The five git handlers validate nothing. For every request body, absent
  and empty fields included, each handler hands the fields to its git operation as
  they are: its response is the operation's result with status 200 or the message of
  the operation's error with status 500 (and none while the operation is pending),
  so never status 400; git is spawned with the fields as given, even absent ones. The
  one operation that does not reach git on an absent field is \<open>addWorktree\<close> without a
  project path, where \<^verbatim>\<open>path.basename\<close> throws and the handler answers 500.
\<close>

theorem git_handlers_no_validation:
  "fst (post_git_worktrees parser req w)
     = reply_of JWorktrees (fst (listWorktrees parser (projectPath req) w))
   \<and> fst (post_git_status parser' req w)
     = reply_of JStatus (fst (getGitStatus parser' (worktreePath req) w))
   \<and> fst (post_git_diff req w)
     = reply_of JDiff (fst (getGitDiff (worktreePath req) (filePath req) w))
   \<and> fst (post_git_worktree_add req w)
     = reply_of JAdd (fst (addWorktree (projectPath req) (branchName req) w))
   \<and> fst (delete_git_worktree req w)
     = reply_of JRemove (fst (removeWorktree (projectPath req) (worktreePath req) (branchName req) w))
   \<and> (fst (post_git_worktrees parser req w) = Some r1 \<longrightarrow> status r1 = 200 \<or> status r1 = 500)
   \<and> (fst (post_git_status parser' req w) = Some r2 \<longrightarrow> status r2 = 200 \<or> status r2 = 500)
   \<and> (fst (post_git_diff req w) = Some r3 \<longrightarrow> status r3 = 200 \<or> status r3 = 500)
   \<and> (fst (post_git_worktree_add req w) = Some r4 \<longrightarrow> status r4 = 200 \<or> status r4 = 500)
   \<and> (fst (delete_git_worktree req w) = Some r5 \<longrightarrow> status r5 = 200 \<or> status r5 = 500)
   \<and> spawned (snd (post_git_worktrees parser req w))
     = spawned w @ [([Some ''worktree'', Some ''list'', Some ''--porcelain''], projectPath req)]
   \<and> spawned (snd (post_git_status parser' req w))
     = spawned w @ [([Some ''status'', Some ''--porcelain=v1''], worktreePath req)]
   \<and> spawned (snd (post_git_diff req w))
     = spawned w @ [(Some ''diff'' # (if truthy (filePath req) then [filePath req] else []),
                     worktreePath req)]
   \<and> (\<exists>more. spawned (snd (delete_git_worktree req w))
        = spawned w @ ([Some ''worktree'', Some ''remove'', worktreePath req, Some ''--force''],
                       projectPath req) # more)
   \<and> (projectPath req = Some p
      \<longrightarrow> spawned (snd (post_git_worktree_add req w))
          = spawned w @ [([Some ''worktree'', Some ''add'', Some ''-b'', branchName req,
                           Some (path_join [p, ''..'',
                                   path_basename p @ ''-'' @ template (branchName req)])], Some p)])
   \<and> (projectPath req = None
      \<longrightarrow> post_git_worktree_add req w
          = (Some \<lparr>status = 500, body = JError (message path_type_error)\<rparr>, w))"
proof -
  have replies:
    "fst (post_git_worktrees parser req w)
       = reply_of JWorktrees (fst (listWorktrees parser (projectPath req) w))"
    "fst (post_git_status parser' req w)
       = reply_of JStatus (fst (getGitStatus parser' (worktreePath req) w))"
    "fst (post_git_diff req w)
       = reply_of JDiff (fst (getGitDiff (worktreePath req) (filePath req) w))"
    "fst (post_git_worktree_add req w)
       = reply_of JAdd (fst (addWorktree (projectPath req) (branchName req) w))"
    "fst (delete_git_worktree req w)
       = reply_of JRemove
           (fst (removeWorktree (projectPath req) (worktreePath req) (branchName req) w))"
    by (simp_all add: post_git_worktrees_def post_git_status_def post_git_diff_def
          post_git_worktree_add_def delete_git_worktree_def fst_respond)
  have statuses:
    "fst (post_git_worktrees parser req w) = Some r1 \<longrightarrow> status r1 = 200 \<or> status r1 = 500"
    "fst (post_git_status parser' req w) = Some r2 \<longrightarrow> status r2 = 200 \<or> status r2 = 500"
    "fst (post_git_diff req w) = Some r3 \<longrightarrow> status r3 = 200 \<or> status r3 = 500"
    "fst (post_git_worktree_add req w) = Some r4 \<longrightarrow> status r4 = 200 \<or> status r4 = 500"
    "fst (delete_git_worktree req w) = Some r5 \<longrightarrow> status r5 = 200 \<or> status r5 = 500"
    unfolding replies using reply_of_status by blast+
  have calls:
    "spawned (snd (post_git_worktrees parser req w))
       = spawned w @ [([Some ''worktree'', Some ''list'', Some ''--porcelain''], projectPath req)]"
    "spawned (snd (post_git_status parser' req w))
       = spawned w @ [([Some ''status'', Some ''--porcelain=v1''], worktreePath req)]"
    "spawned (snd (post_git_diff req w))
       = spawned w @ [(Some ''diff'' # (if truthy (filePath req) then [filePath req] else []),
                       worktreePath req)]"
    by (simp_all only: post_git_worktrees_def post_git_status_def post_git_diff_def snd_respond
          spawned_listWorktrees spawned_getGitStatus spawned_getGitDiff)
  have remove_call:
    "\<exists>more. spawned (snd (delete_git_worktree req w))
        = spawned w @ ([Some ''worktree'', Some ''remove'', worktreePath req, Some ''--force''],
                       projectPath req) # more"
    unfolding delete_git_worktree_def snd_respond by (rule spawned_removeWorktree)
  have add_call:
    "projectPath req = Some p
      \<longrightarrow> spawned (snd (post_git_worktree_add req w))
          = spawned w @ [([Some ''worktree'', Some ''add'', Some ''-b'', branchName req,
                           Some (path_join [p, ''..'',
                                   path_basename p @ ''-'' @ template (branchName req)])], Some p)]"
    by (simp add: post_git_worktree_add_def snd_respond spawned_addWorktree)
  have add_undefined:
    "projectPath req = None
      \<longrightarrow> post_git_worktree_add req w
          = (Some \<lparr>status = 500, body = JError (message path_type_error)\<rparr>, w)"
    by (simp add: post_git_worktree_add_def respond_def reply_of_def addWorktree_undefined_project)
  from replies statuses calls remove_call add_call add_undefined show ?thesis
    by (intro conjI)
qed

theorem git_handlers_no_validation_witness:
  "fst (post_git_worktrees (\<lambda>output. Inr output)
          \<lparr>projectPath = None, worktreePath = None, branchName = None, filePath = None\<rparr>
          \<lparr>script = [Emits [StderrData ''fatal: not a git repository'', Close (Some 128)]],
           spawned = [], env_PATH = Some ''/usr/bin'', process_cwd = Inr ''/srv''\<rparr>)
     = Some (\<lparr>status = 500, body = JError ''fatal: not a git repository''\<rparr>
             :: (string, string, unit) response)
   \<and> fst (post_git_diff
          \<lparr>projectPath = None, worktreePath = Some ''/a/proj'', branchName = None, filePath = Some []\<rparr>
          \<lparr>script = [Emits [StdoutData ''diff --git'', Close (Some 0)]],
           spawned = [], env_PATH = Some ''/usr/bin'', process_cwd = Inr ''/srv''\<rparr>)
     = Some (\<lparr>status = 200, body = JDiff ''diff --git''\<rparr> :: (string, string, unit) response)
   \<and> post_git_worktree_add
          \<lparr>projectPath = None, worktreePath = None, branchName = Some ''feat'', filePath = None\<rparr>
          \<lparr>script = [], spawned = [], env_PATH = Some ''/usr/bin'', process_cwd = Inr ''/srv''\<rparr>
     = (Some (\<lparr>status = 500, body = JError (message path_type_error)\<rparr>
              :: (string, string, unit) response),
        \<lparr>script = [], spawned = [], env_PATH = Some ''/usr/bin'', process_cwd = Inr ''/srv''\<rparr>)
   \<and> spawned (snd (post_git_worktree_add
          \<lparr>projectPath = Some ''/a/proj'', worktreePath = None, branchName = None, filePath = None\<rparr>
          \<lparr>script = [], spawned = [], env_PATH = Some ''/usr/bin'', process_cwd = Inr ''/srv''\<rparr>
        :: (string, string, unit) response option \<times> git_world))
     = [([Some ''worktree'', Some ''add'', Some ''-b'', None, Some ''/a/proj-undefined''],
         Some ''/a/proj'')]"
proof -
  let ?none = "\<lparr>projectPath = None, worktreePath = None, branchName = None, filePath = None\<rparr>"
  let ?w1 = "\<lparr>script = [Emits [StderrData ''fatal: not a git repository'', Close (Some 128)]],
             spawned = [], env_PATH = Some ''/usr/bin'', process_cwd = Inr ''/srv''\<rparr>"
  let ?req2 = "\<lparr>projectPath = None, worktreePath = Some ''/a/proj'', branchName = None,
               filePath = Some []\<rparr>"
  let ?w2 = "\<lparr>script = [Emits [StdoutData ''diff --git'', Close (Some 0)]],
             spawned = [], env_PATH = Some ''/usr/bin'', process_cwd = Inr ''/srv''\<rparr>"
  let ?req3 = "\<lparr>projectPath = None, worktreePath = None, branchName = Some ''feat'',
               filePath = None\<rparr>"
  let ?w3 = "\<lparr>script = [], spawned = [], env_PATH = Some ''/usr/bin'', process_cwd = Inr ''/srv''\<rparr>"
  have 1: "fst (post_git_worktrees (\<lambda>output. Inr output) ?none ?w1)
           = Some (\<lparr>status = 500, body = JError ''fatal: not a git repository''\<rparr>
                   :: (string, string, unit) response)"
    using git_handlers_no_validation
            [where req = ?none and w = ?w1 and parser = "\<lambda>output. Inr output",
             THEN conjunct1]
    by (simp add: reply_of_def listWorktrees_def exec_eval new_Error_def)
  have 2: "fst (post_git_diff ?req2 ?w2)
           = Some (\<lparr>status = 200, body = JDiff ''diff --git''\<rparr> :: (string, string, unit) response)"
    using git_handlers_no_validation
            [where req = ?req2 and w = ?w2, THEN conjunct2, THEN conjunct2, THEN conjunct1]
    by (simp add: reply_of_def getGitDiff_def exec_eval)
  have 3: "post_git_worktree_add ?req3 ?w3
           = (Some (\<lparr>status = 500, body = JError (message path_type_error)\<rparr>
                    :: (string, string, unit) response), ?w3)"
    using git_handlers_no_validation
            [where req = ?req3 and w = ?w3,
             THEN conjunct2, THEN conjunct2, THEN conjunct2, THEN conjunct2, THEN conjunct2,
             THEN conjunct2, THEN conjunct2, THEN conjunct2, THEN conjunct2, THEN conjunct2,
             THEN conjunct2, THEN conjunct2, THEN conjunct2, THEN conjunct2, THEN conjunct2]
    by simp
  have dir: "path_join [''/a/proj'', ''..'', path_basename ''/a/proj'' @ ''-'' @ ''undefined'']
             = ''/a/proj-undefined''"
    by code_simp
  have 4: "spawned (snd (post_git_worktree_add
              \<lparr>projectPath = Some ''/a/proj'', worktreePath = None, branchName = None,
               filePath = None\<rparr> ?w3
            :: (string, string, unit) response option \<times> git_world))
           = [([Some ''worktree'', Some ''add'', Some ''-b'', None, Some ''/a/proj-undefined''],
               Some ''/a/proj'')]"
    using git_handlers_no_validation
            [where req = "\<lparr>projectPath = Some ''/a/proj'', worktreePath = None, branchName = None,
                           filePath = None\<rparr>"
               and w = ?w3 and p = "''/a/proj''",
             THEN conjunct2, THEN conjunct2, THEN conjunct2, THEN conjunct2, THEN conjunct2,
             THEN conjunct2, THEN conjunct2, THEN conjunct2, THEN conjunct2, THEN conjunct2,
             THEN conjunct2, THEN conjunct2, THEN conjunct2, THEN conjunct2, THEN conjunct1]
    by (simp add: dir[simplified])
  from 1 2 3 4 show ?thesis by (intro conjI)
qed

end
